theory Spec2Isabelle
  imports Main "HOL-Library.Word"
begin

section \<open>The relay API service (services/api/service.go)\<close>

text \<open>
  A shallow embedding of the request handlers of the relay: every handler is a function
  from the relay's state and from what the external calls of that request return
  (key/value cache, durable store, signature library, block simulator) to the list of
  the effects it performs, in program order. Go's unsigned 64-bit integers are
  \<open>64 word\<close>, the 256-bit bid values are \<open>256 word\<close>, a Go \<open>error\<close> that is
  only logged or echoed is its message.
\<close>

type_synonym u64 = "64 word"
type_synonym u256 = "256 word"

subsection \<open>strconv: decimal text of unsigned integers\<close>

text \<open>
  \<open>strconv.ParseUint(s, 10, 64)\<close>: the empty string, any character that is not a decimal
  digit (a sign and an underscore included) and a value above \<open>2^64 - 1\<close> are errors.
\<close>

definition digit_val :: "char \<Rightarrow> nat option" where
  "digit_val c = (if 48 \<le> (of_char c :: nat) \<and> (of_char c :: nat) \<le> 57
                  then Some (of_char c - 48) else None)"

fun parse_digits :: "nat \<Rightarrow> string \<Rightarrow> nat option" where
  "parse_digits acc [] = Some acc"
| "parse_digits acc (c # cs) =
     (case digit_val c of None \<Rightarrow> None | Some d \<Rightarrow> parse_digits (acc * 10 + d) cs)"

definition ParseUint :: "string \<Rightarrow> u64 option" where
  "ParseUint s =
     (if s = [] then None
      else case parse_digits 0 s of
             None \<Rightarrow> None
           | Some n \<Rightarrow> if n < 2 ^ 64 then Some (of_nat n) else None)"

text \<open>
  The decimal text of an unsigned integer, which is what the cache client writes for a
  \<open>uint64\<close> value (\<open>strconv.AppendUint(b, v, 10)\<close>).
\<close>

definition digit_char :: "nat \<Rightarrow> char" where
  "digit_char d = char_of (48 + d)"

function FormatUint_nat :: "nat \<Rightarrow> string" where
  "FormatUint_nat n =
     (if n < 10 then [digit_char n] else FormatUint_nat (n div 10) @ [digit_char (n mod 10)])"
  by pat_completeness auto
termination
  by (relation "measure (\<lambda>n. n)") auto

declare FormatUint_nat.simps [simp del]

definition FormatUint :: "u64 \<Rightarrow> string" where
  "FormatUint w = FormatUint_nat (unat w)"

subsection \<open>Data\<close>

text \<open>
  \<open>common.BuilderStatus\<close>, the entry of the builder cache, the randao the relay
  expects, and the parts of a proposer duty, of a bid trace and of an execution payload
  that the handlers read. Public keys, hashes and addresses are their \<open>String()\<close>
  hex text, which is how the source compares and logs them.
\<close>

record BuilderStatus =
  IsHighPrio :: bool
  IsBlacklisted :: bool
  IsDemoted :: bool

record blockBuilderCacheEntry =
  status :: BuilderStatus
  collateral :: u256

record randaoHelper =
  randao_slot :: u64
  prevRandao :: string

record RegisterValidatorRequestMessage =
  FeeRecipient :: string
  RegisteredGasLimit :: u64

record BidTrace =
  Slot :: u64
  ParentHash :: string
  BlockHash :: string
  BuilderPubkey :: string
  ProposerPubkey :: string
  ProposerFeeRecipient :: string
  Value :: u256

record ExecutionPayload =
  Timestamp :: u64
  Random :: string
  BlockNumber :: u64
  Transactions :: "string list"

record BuilderSubmitBlockRequest =
  Message :: "BidTrace option"
  ExecutionPayload :: "ExecutionPayload option"
  Signature :: string

text \<open>A decoded submission whose \<open>Message\<close> and \<open>ExecutionPayload\<close> are not nil.\<close>

record submission =
  message :: BidTrace
  execution_payload :: ExecutionPayload

text \<open>The best bid of the bid store: \<open>types.GetHeaderResponse\<close>, pointers as options.\<close>

record BuilderBid =
  bid_Value :: u256
  bid_BlockHash :: string

record SignedBuilderBid =
  bid_Message :: "BuilderBid option"

record GetHeaderResponse =
  Data :: "SignedBuilderBid option"

text \<open>A row of the block-builder table (\<open>database.BlockBuilderEntry\<close>), by column.\<close>

record BlockBuilderEntry =
  builder_pubkey :: string
  is_high_prio :: bool
  is_blacklisted :: bool
  is_demoted :: bool
  collateral_value :: string
  collateral_id :: string

text \<open>A row of the demotion table: slot, builder, block hash and simulation error.\<close>

record BuilderDemotionEntry =
  demotion_slot :: u64
  demotion_builder_pubkey :: string
  demotion_block_hash :: string
  submit_block_sim_error :: string

text \<open>
  \<open>U256Str.Cmp\<close> of the types library compares two 256-bit values as unsigned
  integers and returns -1, 0 or 1.
\<close>

definition U256_Cmp :: "u256 \<Rightarrow> u256 \<Rightarrow> int" where
  "U256_Cmp a b = (if a < b then - 1 else if a = b then 0 else 1)"

definition ZeroU256 :: u256 where
  "ZeroU256 = 0"

subsection \<open>Effects\<close>

text \<open>
  What a handler does to the outside, one constructor per call of the source:
  \<open>api.RespondError(w, code, message)\<close>, \<open>w.WriteHeader(code)\<close>,
  \<open>api.RespondOK(w, response)\<close>, \<open>time.Sleep\<close>, a panic, the goroutines it
  starts, the call of the simulator, the writes to the key/value cache (the bid store)
  and to the durable store, and, for registrations, the decoding, the signature check
  and the sends on the two channels. Logging is not an effect of the model.
\<close>

datatype event =
    RespondError nat string
  | WriteHeader nat
  | RespondOK_GetHeader GetHeaderResponse
  | RespondOK_GetPayload string
  | Sleep_ms nat
  | Panic
  | Go_updatedExpectedRandao u64
  | Go_updateProposerDuties u64
  | Go_updateOptimisticSlot u64
  | Go_processOptimisticBlock submission u64
  | Call_simulateBlock submission u64
  | Redis_SaveBidTrace BidTrace
  | Redis_SaveExecutionPayload u64 string string
  | Redis_SaveLatestBuilderBid u64 string string string
  | Redis_UpdateTopBid u64 string string
  | DB_SaveBuilderBlockSubmission "string option" bool
  | DB_UpsertBlockBuilderEntryAfterSubmission bool
  | Go_saveDeliveredPayload u64
  | Go_publishBlock u64
  | Chan_activeValidator string
  | Json_Unmarshal_registration
  | VerifySignature_registration
  | Chan_validatorReg string

fun is_bid_store_write :: "event \<Rightarrow> bool" where
  "is_bid_store_write (Redis_SaveBidTrace t) = True"
| "is_bid_store_write (Redis_SaveExecutionPayload sl pk h) = True"
| "is_bid_store_write (Redis_SaveLatestBuilderBid sl b ph pk) = True"
| "is_bid_store_write (Redis_UpdateTopBid sl ph pk) = True"
| "is_bid_store_write e = False"

fun is_optimistic_start :: "event \<Rightarrow> bool" where
  "is_optimistic_start (Go_processOptimisticBlock sub g) = True"
| "is_optimistic_start e = False"

fun is_simulateBlock_call :: "event \<Rightarrow> bool" where
  "is_simulateBlock_call (Call_simulateBlock sub g) = True"
| "is_simulateBlock_call e = False"

text \<open>
  A stage of a handler either returns from the handler (\<open>Return\<close>, with the effects up
  to the \<open>return\<close>) or falls through to the next statement (\<open>Continue\<close>, with its
  effects and the values it leaves in scope).
\<close>

datatype 'a flow = Return "event list" | Continue "event list" 'a

fun bind_flow :: "'a flow \<Rightarrow> ('a \<Rightarrow> 'b flow) \<Rightarrow> 'b flow" where
  "bind_flow (Return es) f = Return es"
| "bind_flow (Continue es a) f =
     (case f a of Return es' \<Rightarrow> Return (es @ es') | Continue es' b \<Rightarrow> Continue (es @ es') b)"

fun events_of :: "'a flow \<Rightarrow> event list" where
  "events_of (Return es) = es"
| "events_of (Continue es a) = es"

subsection \<open>The relay and the stores behind it\<close>

text \<open>
  The fields of \<open>RelayAPI\<close> that the handlers read or write, followed by the contents
  of the stores they reach through \<open>api.redis\<close>, \<open>api.db\<close> and \<open>api.datastore\<close>:
  the statistics hash and the best bids of the key/value cache, the stored registration
  timestamps, the known validators, and the block-builder and demotion tables of the
  durable store.
\<close>

record RelayAPI =
  BlockBuilderAPI :: bool
  headSlot :: u64
  genesisTime :: u64
  proposerDutiesMap :: "u64 \<Rightarrow> RegisterValidatorRequestMessage option"
  ffForceGetHeader204 :: bool
  ffDisableLowPrioBuilders :: bool
  expectedPrevRandao :: randaoHelper
  optimisticSlot :: u64
  blockBuildersCache :: "string \<Rightarrow> blockBuilderCacheEntry option"
  redis_stats :: "string \<Rightarrow> string option"
  redis_bestBid :: "u64 \<times> string \<times> string \<Rightarrow> GetHeaderResponse option"
  redis_registrationTimestamp :: "string \<Rightarrow> u64 option"
  knownValidators :: "string \<Rightarrow> bool"
  db_blockBuilders :: "BlockBuilderEntry list"
  db_demotions :: "BuilderDemotionEntry list"

subsection \<open>simulateBlock\<close>

definition ErrBlockAlreadyKnown :: string where
  "ErrBlockAlreadyKnown = ''simulation failed: block already known''"

text \<open>
  \<open>simulateBlock\<close> gets the error of \<open>blockSimRateLimiter.send\<close> (\<open>None\<close> for
  \<open>nil\<close>) and returns it, unless its message is \<open>ErrBlockAlreadyKnown\<close>.
\<close>

definition simulateBlock :: "string option \<Rightarrow> string option" where
  "simulateBlock simErr =
     (case simErr of
        None \<Rightarrow> None
      | Some msg \<Rightarrow> if msg \<noteq> ErrBlockAlreadyKnown then Some msg else None)"

subsection \<open>The block-builder table\<close>

text \<open>
  Modelled from the spec: the bodies of \<open>SetBlockBuilderStatus\<close>,
  \<open>GetBlockBuilders\<close> and \<open>UpsertBlockBuilderEntryAfterSubmission\<close> are in the
  database package, of which the sources hold the row type and the tests. The table has
  one row per builder with its status bits and collateral. Setting the status of a
  builder writes the three bits to its row and, when the row has a collateral id, to
  every row with that collateral id (TestSetBlockBuilderStatus); a builder without a row
  is an error and changes nothing. The upsert after a submission creates the row of a
  new builder with all bits false, collateral value 0 and no collateral id
  (insertTestBuilder, TestSetBlockBuilderCollateral) and otherwise updates counters,
  which the model leaves out.
\<close>

definition GetBlockBuilderByPubkey :: "BlockBuilderEntry list \<Rightarrow> string \<Rightarrow> BlockBuilderEntry option" where
  "GetBlockBuilderByPubkey tbl pubkey = find (\<lambda>r. builder_pubkey r = pubkey) tbl"

definition statusWrite ::
  "BlockBuilderEntry \<Rightarrow> string \<Rightarrow> BuilderStatus \<Rightarrow> BlockBuilderEntry \<Rightarrow> BlockBuilderEntry" where
  "statusWrite b pubkey st r =
     (if builder_pubkey r = pubkey \<or> (collateral_id b \<noteq> [] \<and> collateral_id r = collateral_id b)
      then r\<lparr>is_high_prio := IsHighPrio st, is_blacklisted := IsBlacklisted st,
              is_demoted := IsDemoted st\<rparr>
      else r)"

definition SetBlockBuilderStatus ::
  "BlockBuilderEntry list \<Rightarrow> string \<Rightarrow> BuilderStatus \<Rightarrow> BlockBuilderEntry list" where
  "SetBlockBuilderStatus tbl pubkey st =
     (case GetBlockBuilderByPubkey tbl pubkey of
        None \<Rightarrow> tbl
      | Some b \<Rightarrow> map (statusWrite b pubkey st) tbl)"

definition UpsertBlockBuilderEntryAfterSubmission ::
  "BlockBuilderEntry list \<Rightarrow> string \<Rightarrow> BlockBuilderEntry list" where
  "UpsertBlockBuilderEntryAfterSubmission tbl pubkey =
     (case GetBlockBuilderByPubkey tbl pubkey of
        Some b \<Rightarrow> tbl
      | None \<Rightarrow> tbl @ [\<lparr>builder_pubkey = pubkey, is_high_prio = False, is_blacklisted = False,
                        is_demoted = False, collateral_value = ''0'', collateral_id = []\<rparr>])"

subsection \<open>Demotion and the builder cache\<close>

text \<open>
  \<open>demoteBuilder\<close>: the new status (\<open>demotedStatus\<close>) keeps the cached
  high-priority and blacklist bits (those of an empty entry when the builder is not
  cached) and sets the demoted bit. It
  goes to the table only; the cache is not written. \<open>statusError\<close> and
  \<open>demotionError\<close> are the errors of the two database calls, which are logged.
\<close>

definition demotedStatus :: "RelayAPI \<Rightarrow> string \<Rightarrow> BuilderStatus" where
  "demotedStatus api pubkey =
     (let builderEntry =
            (case blockBuildersCache api pubkey of
               Some e \<Rightarrow> e
             | None \<Rightarrow> \<lparr>status = \<lparr>IsHighPrio = False, IsBlacklisted = False, IsDemoted = False\<rparr>,
                        collateral = 0\<rparr>)
      in \<lparr>IsHighPrio = IsHighPrio (status builderEntry),
          IsBlacklisted = IsBlacklisted (status builderEntry),
          IsDemoted = True\<rparr>)"

definition demoteBuilder ::
  "RelayAPI \<Rightarrow> string \<Rightarrow> submission \<Rightarrow> string \<Rightarrow> string option \<Rightarrow> string option \<Rightarrow> RelayAPI" where
  "demoteBuilder api pubkey req simError statusError demotionError =
     (let newStatus = demotedStatus api pubkey;
          api1 = (case statusError of
                    None \<Rightarrow> api\<lparr>db_blockBuilders :=
                                    SetBlockBuilderStatus (db_blockBuilders api) pubkey newStatus\<rparr>
                  | Some e \<Rightarrow> api)
      in case demotionError of
           None \<Rightarrow> api1\<lparr>db_demotions := db_demotions api1 @
                     [\<lparr>demotion_slot = Slot (message req),
                       demotion_builder_pubkey = BuilderPubkey (message req),
                       demotion_block_hash = BlockHash (message req),
                       submit_block_sim_error = simError\<rparr>]\<rparr>
         | Some e \<Rightarrow> api1)"

text \<open>
  \<open>processOptimisticBlock\<close>, the goroutine of an optimistic submission, with the
  answer of the simulator: a simulation error demotes the builder of the request.
\<close>

definition processOptimisticBlock ::
  "RelayAPI \<Rightarrow> submission \<Rightarrow> string option \<Rightarrow> string option \<Rightarrow> string option \<Rightarrow> RelayAPI" where
  "processOptimisticBlock api req sendResult statusError demotionError =
     (case simulateBlock sendResult of
        Some simErr \<Rightarrow>
          demoteBuilder api (BuilderPubkey (message req)) req simErr statusError demotionError
      | None \<Rightarrow> api)"

text \<open>
  \<open>updateOptimisticSlot\<close>, after the wait for the optimistic blocks in flight: the
  optimistic slot becomes the head slot plus one (in 64 bits), then every row that
  \<open>GetBlockBuilders\<close> returns (\<open>Inl\<close> its error) overwrites the cache entry
  of its builder. \<open>unmarshalU256\<close> is \<open>U256Str.UnmarshalText\<close> of the types
  library, \<open>None\<close> for an error.
\<close>

definition cacheEntryOfRow :: "(string \<Rightarrow> u256 option) \<Rightarrow> BlockBuilderEntry \<Rightarrow> blockBuilderCacheEntry" where
  "cacheEntryOfRow unmarshalU256 v =
     \<lparr>status = \<lparr>IsHighPrio = is_high_prio v, IsBlacklisted = is_blacklisted v,
                 IsDemoted = is_demoted v\<rparr>,
      collateral = (case unmarshalU256 (collateral_value v) of
                      None \<Rightarrow> ZeroU256
                    | Some c \<Rightarrow> c)\<rparr>"

fun refreshBuilderCache ::
  "(string \<Rightarrow> u256 option) \<Rightarrow> (string \<Rightarrow> blockBuilderCacheEntry option) \<Rightarrow> BlockBuilderEntry list
     \<Rightarrow> (string \<Rightarrow> blockBuilderCacheEntry option)" where
  "refreshBuilderCache unmarshalU256 cache [] = cache"
| "refreshBuilderCache unmarshalU256 cache (v # builders) =
     refreshBuilderCache unmarshalU256
       (cache(builder_pubkey v \<mapsto> cacheEntryOfRow unmarshalU256 v)) builders"

definition updateOptimisticSlot ::
  "(string \<Rightarrow> u256 option) \<Rightarrow> RelayAPI \<Rightarrow> u64 \<Rightarrow> string option \<Rightarrow> RelayAPI" where
  "updateOptimisticSlot unmarshalU256 api newHeadSlot getBlockBuildersError =
     (let api1 = api\<lparr>optimisticSlot := newHeadSlot + 1\<rparr>
      in case getBlockBuildersError of
           Some e \<Rightarrow> api1
         | None \<Rightarrow> api1\<lparr>blockBuildersCache :=
                      refreshBuilderCache unmarshalU256 (blockBuildersCache api1)
                        (db_blockBuilders api1)\<rparr>)"

text \<open>
  \<open>processNewSlot\<close>: a head slot that is not newer is ignored; otherwise it is
  stored and, with the builder API, the three per-slot updates are started.
\<close>

definition processNewSlot :: "RelayAPI \<Rightarrow> u64 \<Rightarrow> RelayAPI \<times> event list" where
  "processNewSlot api newHeadSlot =
     (if newHeadSlot \<le> headSlot api then (api, [])
      else (api\<lparr>headSlot := newHeadSlot\<rparr>,
            if BlockBuilderAPI api
            then [Go_updatedExpectedRandao newHeadSlot, Go_updateProposerDuties newHeadSlot,
                  Go_updateOptimisticSlot newHeadSlot]
            else []))"

text \<open>
  \<open>handleInternalBuilderStatus\<close> with POST or PUT, the operator's way to write the
  status bits: each bit is whether its query parameter is the text true.
\<close>

definition handleInternalBuilderStatus ::
  "RelayAPI \<Rightarrow> string \<Rightarrow> string \<Rightarrow> string \<Rightarrow> string \<Rightarrow> string option \<Rightarrow> RelayAPI" where
  "handleInternalBuilderStatus api builderPubkey high_prio blacklisted demoted statusError =
     (let newStatus = \<lparr>IsHighPrio = (high_prio = ''true''),
                       IsBlacklisted = (blacklisted = ''true''),
                       IsDemoted = (demoted = ''true'')\<rparr>
      in case statusError of
           None \<Rightarrow> api\<lparr>db_blockBuilders :=
                        SetBlockBuilderStatus (db_blockBuilders api) builderPubkey newStatus\<rparr>
         | Some e \<Rightarrow> api)"

subsection \<open>handleSubmitNewBlock\<close>

text \<open>
  The request as the decoding steps see it: the error of \<open>gzip.NewReader\<close> when the
  body is announced as gzip, the outcome of the token loop that looks for
  \<open>block_hash\<close> and \<open>value\<close> (it ends, fails with an error, or panics on a value
  that is not a string), and the result of the JSON decoder.
\<close>

datatype header_scan = ScanDone | ScanError string | ScanPanic

record submit_request =
  gzipError :: "string option"
  headerScan :: header_scan
  decoded :: "string + BuilderSubmitBlockRequest"

text \<open>
  What the calls of one request return: the transport error of the cache read of the
  delivered-slot marker, the error of \<open>SanityCheckBuilderBlockSubmission\<close>, the pair
  of \<open>types.VerifySignature\<close>, the error of the simulator, \<open>receivedAt\<close> in
  milliseconds, the result of \<open>GetBuilderLatestPayloadReceivedAt\<close>, the error of
  \<open>BuilderSubmitBlockRequestToSignedBuilderBid\<close>, and the errors of the four cache
  writes and of \<open>SaveBuilderBlockSubmission\<close>. The expected randao is read twice,
  and \<open>updatedExpectedRandao\<close> may write it in between: the first read is the field
  of the relay, the second read is \<open>randaoAtConfirmation\<close>. Every other field of the
  relay is read from one snapshot.
\<close>

record submit_env =
  getStats_error :: "string option"
  sanityCheck_error :: "string option"
  randaoAtConfirmation :: randaoHelper
  verifySignature :: "bool \<times> string option"
  simulatorResult :: "string option"
  receivedAt_ms :: int
  latestPayloadReceivedAt :: "string + int"
  signBid_error :: "string option"
  saveBidTrace_error :: "string option"
  saveExecutionPayload_error :: "string option"
  saveLatestBuilderBid_error :: "string option"
  updateTopBid_error :: "string option"
  saveSubmission_error :: "string option"

text \<open>
  Modelled from the spec: \<open>GetStats\<close> and \<open>SetStats\<close> of the cache client are
  not among the sources. \<open>get_stats\<close> reads a field of the statistics hash and
  \<open>set_stats\<close> writes it; a transport failure is an error, a field that was never
  written is the client's \<open>redis.Nil\<close> with an empty value.
\<close>

datatype redis_error = RedisNil | RedisError string

definition RedisStatsFieldSlotLastPayloadDelivered :: string where
  "RedisStatsFieldSlotLastPayloadDelivered = ''slot_last_payload_delivered''"

definition GetStats :: "RelayAPI \<Rightarrow> string option \<Rightarrow> string \<Rightarrow> string \<times> redis_error option" where
  "GetStats api transportError field =
     (case transportError of
        Some e \<Rightarrow> ([], Some (RedisError e))
      | None \<Rightarrow> (case redis_stats api field of
                   None \<Rightarrow> ([], Some RedisNil)
                 | Some v \<Rightarrow> (v, None)))"

definition SetStats :: "RelayAPI \<Rightarrow> string option \<Rightarrow> string \<Rightarrow> u64 \<Rightarrow> RelayAPI" where
  "SetStats api transportError field v =
     (case transportError of
        Some e \<Rightarrow> api
      | None \<Rightarrow> api\<lparr>redis_stats := (redis_stats api)(field \<mapsto> FormatUint v)\<rparr>)"

text \<open>Stage 1: the decoding, up to the check for missing parts.\<close>

definition decodeSubmission :: "submit_request \<Rightarrow> submission flow" where
  "decodeSubmission req =
     (case gzipError req of
        Some e \<Rightarrow> Return [RespondError 400 e]
      | None \<Rightarrow>
     (case headerScan req of
        ScanError e \<Rightarrow> Return [RespondError 400 e]
      | ScanPanic \<Rightarrow> Return [Panic]
      | ScanDone \<Rightarrow>
     (case decoded req of
        Inl e \<Rightarrow> Return [RespondError 400 e]
      | Inr payload \<Rightarrow>
     (case Message payload of
        None \<Rightarrow> Return [RespondError 400 ''missing parts of the payload'']
      | Some m \<Rightarrow>
     (case ExecutionPayload payload of
        None \<Rightarrow> Return [RespondError 400 ''missing parts of the payload'']
      | Some ep \<Rightarrow> Continue [] \<lparr>message = m, execution_payload = ep\<rparr>)))))"

text \<open>
  Stage 2: submissions are rejected once the payload of their slot was delivered. An
  error of the read other than \<open>redis.Nil\<close> is logged, and so is a value that does not
  parse; either way the handler goes on.
\<close>

definition slotGate :: "RelayAPI \<Rightarrow> submit_env \<Rightarrow> submission \<Rightarrow> unit flow" where
  "slotGate api env payload =
     (case GetStats api (getStats_error env) RedisStatsFieldSlotLastPayloadDelivered of
        (slotStr, err) \<Rightarrow>
          if err \<noteq> None \<and> err \<noteq> Some RedisNil then Continue [] ()
          else (case ParseUint slotStr of
                  None \<Rightarrow> Continue [] ()
                | Some slotLastPayloadDelivered \<Rightarrow>
                    if Slot (message payload) \<le> slotLastPayloadDelivered
                    then Return [RespondError 400 ''payload for this slot was already delivered'']
                    else Continue [] ()))"

text \<open>Stage 3: the cached entry of the builder, or low priority and no collateral.\<close>

definition builderEntry :: "RelayAPI \<Rightarrow> submission \<Rightarrow> blockBuilderCacheEntry" where
  "builderEntry api payload =
     (case blockBuildersCache api (BuilderPubkey (message payload)) of
        Some e \<Rightarrow> e
      | None \<Rightarrow> \<lparr>status = \<lparr>IsHighPrio = False, IsBlacklisted = False, IsDemoted = False\<rparr>,
                 collateral = ZeroU256\<rparr>)"

text \<open>Stages 4 to 10, each a check of the source in its order.\<close>

definition timestampCheck :: "RelayAPI \<Rightarrow> submission \<Rightarrow> unit flow" where
  "timestampCheck api payload =
     (let expectedTimestamp = genesisTime api + Slot (message payload) * 12
      in if Timestamp (execution_payload payload) \<noteq> expectedTimestamp
         then Return [RespondError 400
                (''incorrect timestamp. got '' @ FormatUint (Timestamp (execution_payload payload))
                  @ '', expected '' @ FormatUint expectedTimestamp)]
         else Continue [] ())"

definition randaoRefresh :: "RelayAPI \<Rightarrow> submission \<Rightarrow> unit flow" where
  "randaoRefresh api payload =
     (if Slot (message payload) > randao_slot (expectedPrevRandao api)
      then Continue [Go_updatedExpectedRandao (Slot (message payload) - 1)] ()
      else Continue [] ())"

definition dutyMatch :: "RelayAPI \<Rightarrow> submission \<Rightarrow> RegisterValidatorRequestMessage flow" where
  "dutyMatch api payload =
     (case proposerDutiesMap api (Slot (message payload)) of
        None \<Rightarrow> Return [RespondError 400 ''could not find slot duty'']
      | Some slotDuty \<Rightarrow>
          if FeeRecipient slotDuty \<noteq> ProposerFeeRecipient (message payload)
          then Return [RespondError 400 ''fee recipient does not match'']
          else Continue [] slotDuty)"

definition statusGates :: "RelayAPI \<Rightarrow> submission \<Rightarrow> unit flow" where
  "statusGates api payload =
     (if IsBlacklisted (status (builderEntry api payload))
      then Return [Sleep_ms 200, WriteHeader 200]
      else if ffDisableLowPrioBuilders api \<and> \<not> IsHighPrio (status (builderEntry api payload))
      then Return [Sleep_ms 200, WriteHeader 200]
      else Continue [] ())"

definition pastSlotGate :: "RelayAPI \<Rightarrow> submission \<Rightarrow> unit flow" where
  "pastSlotGate api payload =
     (if Slot (message payload) \<le> headSlot api
      then Return [RespondError 400 ''submission for past slot'']
      else Continue [] ())"

definition trivialityGate :: "submission \<Rightarrow> unit flow" where
  "trivialityGate payload =
     (if U256_Cmp (Value (message payload)) ZeroU256 = 0
         \<or> length (Transactions (execution_payload payload)) = 0
      then Return [WriteHeader 200]
      else Continue [] ())"

definition sanityCheck :: "submit_env \<Rightarrow> unit flow" where
  "sanityCheck env =
     (case sanityCheck_error env of
        Some e \<Rightarrow> Return [RespondError 400 e]
      | None \<Rightarrow> Continue [] ())"

definition preValidation ::
  "RelayAPI \<Rightarrow> submit_env \<Rightarrow> submission \<Rightarrow> (submission \<times> RegisterValidatorRequestMessage) flow" where
  "preValidation api env payload =
     bind_flow (timestampCheck api payload) (\<lambda>_.
     bind_flow (randaoRefresh api payload) (\<lambda>_.
     bind_flow (dutyMatch api payload) (\<lambda>slotDuty.
     bind_flow (statusGates api payload) (\<lambda>_.
     bind_flow (pastSlotGate api payload) (\<lambda>_.
     bind_flow (trivialityGate payload) (\<lambda>_.
     bind_flow (sanityCheck env) (\<lambda>_.
     Continue [] (payload, slotDuty))))))))"

text \<open>Stage 11: the expected randao is read again and must be that of the payload.\<close>

definition randaoConfirmation :: "submit_env \<Rightarrow> submission \<Rightarrow> unit flow" where
  "randaoConfirmation env payload =
     (let expectedRandao = randaoAtConfirmation env
      in if randao_slot expectedRandao \<noteq> Slot (message payload)
         then Return [RespondError 500 ''prev_randao is not known yet'']
         else if prevRandao expectedRandao \<noteq> Random (execution_payload payload)
         then Return [RespondError 400
                (''incorrect prev_randao - got: '' @ Random (execution_payload payload)
                  @ '', expected: '' @ prevRandao expectedRandao)]
         else Continue [] ())"

text \<open>Stage 12: the signature of the builder.\<close>

definition signatureVerification :: "submit_env \<Rightarrow> unit flow" where
  "signatureVerification env =
     (case verifySignature env of
        (ok, err) \<Rightarrow>
          if \<not> ok \<or> err \<noteq> None
          then Return [RespondError 400 ''invalid signature'']
          else Continue [] ())"

text \<open>
  The deferred function, which runs at every return after stage 12: the submission is
  saved with the simulation error and the optimistic bit, and when that worked the entry
  of the builder is upserted.
\<close>

definition deferredSave :: "submit_env \<Rightarrow> string option \<Rightarrow> bool \<Rightarrow> event list" where
  "deferredSave env simErr optimisticSubmission =
     DB_SaveBuilderBlockSubmission simErr optimisticSubmission #
     (case saveSubmission_error env of
        Some e \<Rightarrow> []
      | None \<Rightarrow> [DB_UpsertBlockBuilderEntryAfterSubmission (simErr \<noteq> None)])"

text \<open>
  Stage 13: with sufficient collateral the block goes to a goroutine and the handler
  goes on; otherwise it is simulated here and a simulation error ends the request. The
  value that continues is \<open>optimisticSubmission\<close>.
\<close>

definition optimisticCondition :: "RelayAPI \<Rightarrow> submission \<Rightarrow> bool" where
  "optimisticCondition api payload =
     (U256_Cmp (collateral (builderEntry api payload)) (Value (message payload)) > 0
      \<and> \<not> IsDemoted (status (builderEntry api payload))
      \<and> Slot (message payload) = optimisticSlot api)"

definition collateralBranch ::
  "RelayAPI \<Rightarrow> submit_env \<Rightarrow> submission \<Rightarrow> RegisterValidatorRequestMessage \<Rightarrow> bool flow" where
  "collateralBranch api env payload slotDuty =
     (if optimisticCondition api payload
      then Continue [Go_processOptimisticBlock payload (RegisteredGasLimit slotDuty)] True
      else (case simulateBlock (simulatorResult env) of
              Some simErr \<Rightarrow>
                Return ([Call_simulateBlock payload (RegisteredGasLimit slotDuty),
                         RespondError 400 simErr] @ deferredSave env (Some simErr) False)
            | None \<Rightarrow> Continue [Call_simulateBlock payload (RegisteredGasLimit slotDuty)] False))"

text \<open>Stage 14: a request older than the latest payload of the builder is dropped.\<close>

definition stalenessCheck :: "submit_env \<Rightarrow> bool \<Rightarrow> unit flow" where
  "stalenessCheck env optimisticSubmission =
     (case latestPayloadReceivedAt env of
        Inl e \<Rightarrow> Continue [] ()
      | Inr latest \<Rightarrow>
          if receivedAt_ms env < latest
          then Return ([RespondError 400 ''already using a newer payload'']
                       @ deferredSave env None optimisticSubmission)
          else Continue [] ())"

text \<open>Stage 15: the relay signs the bid.\<close>

definition bidConstruction :: "submit_env \<Rightarrow> bool \<Rightarrow> unit flow" where
  "bidConstruction env optimisticSubmission =
     (case signBid_error env of
        Some e \<Rightarrow> Return ([RespondError 400 e] @ deferredSave env None optimisticSubmission)
      | None \<Rightarrow> Continue [] ())"

text \<open>Stage 16 and the final answer: the four cache writes, each ending the request on its error.\<close>

definition cacheWrites :: "submit_env \<Rightarrow> submission \<Rightarrow> bool \<Rightarrow> event list" where
  "cacheWrites env payload optimisticSubmission =
     (let m = message payload;
          w1 = Redis_SaveBidTrace m;
          w2 = Redis_SaveExecutionPayload (Slot m) (ProposerPubkey m) (BlockHash m);
          w3 = Redis_SaveLatestBuilderBid (Slot m) (BuilderPubkey m) (ParentHash m) (ProposerPubkey m);
          w4 = Redis_UpdateTopBid (Slot m) (ParentHash m) (ProposerPubkey m);
          deferred = deferredSave env None optimisticSubmission
      in case saveBidTrace_error env of
           Some e \<Rightarrow> [w1, RespondError 500 e] @ deferred
         | None \<Rightarrow>
        (case saveExecutionPayload_error env of
           Some e \<Rightarrow> [w1, w2, RespondError 500 e] @ deferred
         | None \<Rightarrow>
        (case saveLatestBuilderBid_error env of
           Some e \<Rightarrow> [w1, w2, w3, RespondError 500 e] @ deferred
         | None \<Rightarrow>
        (case updateTopBid_error env of
           Some e \<Rightarrow> [w1, w2, w3, w4, RespondError 500 e] @ deferred
         | None \<Rightarrow> [w1, w2, w3, w4, WriteHeader 200] @ deferred))))"

text \<open>The handler up to three of its stages, and the handler.\<close>

definition beforeRandaoConfirmation ::
  "RelayAPI \<Rightarrow> submit_env \<Rightarrow> submit_request
     \<Rightarrow> (submission \<times> RegisterValidatorRequestMessage) flow" where
  "beforeRandaoConfirmation api env req =
     bind_flow (decodeSubmission req) (\<lambda>payload.
     bind_flow (slotGate api env payload) (\<lambda>_.
     preValidation api env payload))"

definition beforeCollateralBranch ::
  "RelayAPI \<Rightarrow> submit_env \<Rightarrow> submit_request
     \<Rightarrow> (submission \<times> RegisterValidatorRequestMessage) flow" where
  "beforeCollateralBranch api env req =
     bind_flow (beforeRandaoConfirmation api env req) (\<lambda>(payload, slotDuty).
     bind_flow (randaoConfirmation env payload) (\<lambda>_.
     bind_flow (signatureVerification env) (\<lambda>_.
     Continue [] (payload, slotDuty))))"

definition beforeCacheWrites ::
  "RelayAPI \<Rightarrow> submit_env \<Rightarrow> submit_request \<Rightarrow> (submission \<times> bool) flow" where
  "beforeCacheWrites api env req =
     bind_flow (beforeCollateralBranch api env req) (\<lambda>(payload, slotDuty).
     bind_flow (collateralBranch api env payload slotDuty) (\<lambda>optimisticSubmission.
     bind_flow (stalenessCheck env optimisticSubmission) (\<lambda>_.
     bind_flow (bidConstruction env optimisticSubmission) (\<lambda>_.
     Continue [] (payload, optimisticSubmission)))))"

definition handleSubmitNewBlock :: "RelayAPI \<Rightarrow> submit_env \<Rightarrow> submit_request \<Rightarrow> event list" where
  "handleSubmitNewBlock api env req =
     events_of
       (bind_flow (beforeCacheWrites api env req) (\<lambda>(payload, optimisticSubmission).
          Return (cacheWrites env payload optimisticSubmission) :: unit flow))"

text \<open>The rest of the handler from stage 3 on, and from stage 14 on.\<close>

definition fromBuilderLookup :: "RelayAPI \<Rightarrow> submit_env \<Rightarrow> submission \<Rightarrow> unit flow" where
  "fromBuilderLookup api env payload =
     bind_flow (preValidation api env payload) (\<lambda>(payload, slotDuty).
     bind_flow (randaoConfirmation env payload) (\<lambda>_.
     bind_flow (signatureVerification env) (\<lambda>_.
     bind_flow (collateralBranch api env payload slotDuty) (\<lambda>optimisticSubmission.
     bind_flow (stalenessCheck env optimisticSubmission) (\<lambda>_.
     bind_flow (bidConstruction env optimisticSubmission) (\<lambda>_.
     Return (cacheWrites env payload optimisticSubmission)))))))"

definition fromStalenessCheck :: "submit_env \<Rightarrow> submission \<Rightarrow> bool \<Rightarrow> unit flow" where
  "fromStalenessCheck env payload optimisticSubmission =
     bind_flow (stalenessCheck env optimisticSubmission) (\<lambda>_.
     bind_flow (bidConstruction env optimisticSubmission) (\<lambda>_.
     Return (cacheWrites env payload optimisticSubmission)))"

text \<open>
  The relay after a submission: the one write of the handler to the state of this model
  is the upsert of the deferred function, which it reaches when the submission was saved.
\<close>

definition relayAfterSubmission :: "RelayAPI \<Rightarrow> submit_env \<Rightarrow> submit_request \<Rightarrow> RelayAPI" where
  "relayAfterSubmission api env req =
     (case decodeSubmission req of
        Return es \<Rightarrow> api
      | Continue es payload \<Rightarrow>
          if DB_UpsertBlockBuilderEntryAfterSubmission True \<in> set (handleSubmitNewBlock api env req)
             \<or> DB_UpsertBlockBuilderEntryAfterSubmission False \<in> set (handleSubmitNewBlock api env req)
          then api\<lparr>db_blockBuilders :=
                 UpsertBlockBuilderEntryAfterSubmission (db_blockBuilders api)
                   (BuilderPubkey (message payload))\<rparr>
          else api)"

subsection \<open>handleGetHeader\<close>

record getheader_request =
  slotStr :: string
  parentHashHex :: string
  proposerPubkeyHex :: string

text \<open>The texts of three errors of the common package, which the sources do not hold.\<close>

record common_errors =
  ErrInvalidSlot :: string
  ErrInvalidPubkey :: string
  ErrInvalidHash :: string

text \<open>
  Modelled from the spec: \<open>GetBestBid\<close> of the cache client is not among the
  sources. \<open>get_best_bid(slot, parent, proposer)\<close> gives the signed header published
  for the tuple or nothing; the store returns empty, not an error, for a tuple without a
  bid, and an error only for a transport failure.
\<close>

definition GetBestBid ::
  "RelayAPI \<Rightarrow> string option \<Rightarrow> u64 \<Rightarrow> string \<Rightarrow> string \<Rightarrow> GetHeaderResponse option \<times> string option" where
  "GetBestBid api transportError sl parentHash proposerPubkey =
     (case transportError of
        Some e \<Rightarrow> (None, Some e)
      | None \<Rightarrow> (redis_bestBid api (sl, parentHash, proposerPubkey), None))"

definition handleGetHeader ::
  "RelayAPI \<Rightarrow> common_errors \<Rightarrow> string option \<Rightarrow> getheader_request \<Rightarrow> event list" where
  "handleGetHeader api errs getBestBid_error req =
     (case ParseUint (slotStr req) of
        None \<Rightarrow> [RespondError 400 (ErrInvalidSlot errs)]
      | Some sl \<Rightarrow>
          if length (proposerPubkeyHex req) \<noteq> 98 then [RespondError 400 (ErrInvalidPubkey errs)]
          else if length (parentHashHex req) \<noteq> 66 then [RespondError 400 (ErrInvalidHash errs)]
          else if sl < headSlot api then [RespondError 400 ''slot is too old'']
          else if ffForceGetHeader204 api then [WriteHeader 204]
          else (case GetBestBid api getBestBid_error sl (parentHashHex req) (proposerPubkeyHex req) of
                  (bid, Some e) \<Rightarrow> [RespondError 400 e]
                | (None, None) \<Rightarrow> [WriteHeader 204]
                | (Some b, None) \<Rightarrow>
                    (case Data b of
                       None \<Rightarrow> [WriteHeader 204]
                     | Some d \<Rightarrow>
                         (case bid_Message d of
                            None \<Rightarrow> [WriteHeader 204]
                          | Some m \<Rightarrow>
                              if U256_Cmp (bid_Value m) ZeroU256 = 0 then [WriteHeader 204]
                              else [RespondOK_GetHeader b]))))"

subsection \<open>handleGetPayload\<close>

record SignedBlindedBeaconBlock =
  blinded_Slot :: u64
  ProposerIndex :: u64
  header_BlockHash :: string

text \<open>
  What the calls of one request return: the public key of the proposer index, the error
  of \<open>types.HexToPubkey\<close>, the pair of \<open>types.VerifySignature\<close>, the two
  attempts of \<open>GetGetPayloadResponse\<close> (response and error), and the transport error
  of \<open>SetStats\<close>.
\<close>

record getpayload_env =
  pubkeyByIndex :: "string option"
  hexToPubkey_error :: "string option"
  verifyPayloadSignature :: "bool \<times> string option"
  getPayloadResponse1 :: "string option \<times> string option"
  getPayloadResponse2 :: "string option \<times> string option"
  setStats_error :: "string option"

text \<open>
  The answer of the handler and the relay after it. Once the payload is sent two
  goroutines start; the first begins by writing the slot as the delivered-slot marker,
  which is the one write in them to the state of this model, so the relay returned is
  the relay after that write. Their other calls go to the durable store and the beacon
  node.
\<close>

definition deliverPayload :: "RelayAPI \<Rightarrow> getpayload_env \<Rightarrow> u64 \<Rightarrow> string \<Rightarrow> event list \<times> RelayAPI" where
  "deliverPayload api env sl getPayloadResp =
     ([RespondOK_GetPayload getPayloadResp, Go_saveDeliveredPayload sl, Go_publishBlock sl],
      SetStats api (setStats_error env) RedisStatsFieldSlotLastPayloadDelivered sl)"

definition handleGetPayload ::
  "RelayAPI \<Rightarrow> getpayload_env \<Rightarrow> string + SignedBlindedBeaconBlock \<Rightarrow> event list \<times> RelayAPI" where
  "handleGetPayload api env body =
     (case body of
        Inl e \<Rightarrow> ([RespondError 400 e], api)
      | Inr payload \<Rightarrow>
     (case pubkeyByIndex env of
        None \<Rightarrow> ([RespondError 400 ''could not match proposer index to pubkey''], api)
      | Some proposerPubkey \<Rightarrow>
     (case hexToPubkey_error env of
        Some e \<Rightarrow> ([RespondError 400 ''could not convert pubkey to types.PublicKey''], api)
      | None \<Rightarrow>
     (case verifyPayloadSignature env of
        (ok, err) \<Rightarrow>
          if \<not> ok \<or> err \<noteq> None
          then ([RespondError 400 ''could not verify payload signature''], api)
          else
     (case getPayloadResponse1 env of
        (Some resp, None) \<Rightarrow> deliverPayload api env (blinded_Slot payload) resp
      | _ \<Rightarrow>
     (case getPayloadResponse2 env of
        (resp2, Some e) \<Rightarrow> ([Sleep_ms 100, RespondError 400 e], api)
      | (None, None) \<Rightarrow> ([Sleep_ms 100, RespondError 400 ''no execution payload for this request''], api)
      | (Some resp, None) \<Rightarrow>
          (case deliverPayload api env (blinded_Slot payload) resp of
             (evs, api') \<Rightarrow> (Sleep_ms 100 # evs, api'))))))))"

subsection \<open>handleRegisterValidator\<close>

text \<open>
  One element of the array of a registration request, as the calls made for it see it:
  the result of \<open>parseRegistration\<close> (the public key and the \<open>int64\<close> timestamp,
  kept as its 64 bits), the transport error of the read of the stored timestamp, the
  error of \<open>json.Unmarshal\<close>, the pair of \<open>types.VerifySignature\<close>, the public
  key of the decoded message, and whether each channel is full at its send.
\<close>

record registration =
  parseRegistration :: "string + (string \<times> u64)"
  getTimestamp_error :: "string option"
  unmarshal_error :: "string option"
  verifyRegistration :: "bool \<times> string option"
  message_Pubkey :: string
  activeValidatorC_full :: bool
  validatorRegC_full :: bool

record register_request =
  ContentLength :: int
  readAll_error :: "string option"
  registrations :: "registration list"
  arrayEach_error :: bool

text \<open>
  Modelled from the spec: \<open>GetValidatorRegistrationTimestamp\<close> of the cache client is
  not among the sources. It reads the stored registration timestamp of a public key; a
  key without one reads as 0, a transport failure is an error.
\<close>

definition GetValidatorRegistrationTimestamp ::
  "RelayAPI \<Rightarrow> string option \<Rightarrow> string \<Rightarrow> u64 \<times> string option" where
  "GetValidatorRegistrationTimestamp api transportError pkHex =
     (case transportError of
        Some e \<Rightarrow> (0, Some e)
      | None \<Rightarrow> (case redis_registrationTimestamp api pkHex of
                   None \<Rightarrow> (0, None)
                 | Some t \<Rightarrow> (t, None)))"

text \<open>
  \<open>time.Unix(timestampInt, 0).After(start.Add(10 * time.Second))\<close>, with the start of
  the request in nanoseconds since the epoch: times are compared as instants.
\<close>

definition tooFarInFuture :: "int \<Rightarrow> u64 \<Rightarrow> bool" where
  "tooFarInFuture start_ns timestampInt =
     (sint timestampInt * 1000000000 > start_ns + 10 * 1000000000)"

text \<open>
  The callback of \<open>jsonparser.ArrayEach\<close> for an element that is processed: its
  effects and whether it sets \<open>processingStoppedByError\<close>. The comparison with the
  stored timestamp is on \<open>uint64(timestampInt)\<close>, the same 64 bits read unsigned.
\<close>

definition processRegistration :: "RelayAPI \<Rightarrow> int \<Rightarrow> registration \<Rightarrow> event list \<times> bool" where
  "processRegistration api start_ns reg =
     (case parseRegistration reg of
        Inl e \<Rightarrow> ([RespondError 400 e], True)
      | Inr (pkHex, timestampInt) \<Rightarrow>
          if tooFarInFuture start_ns timestampInt
          then ([RespondError 400 ''timestamp too far in the future''], True)
          else if \<not> knownValidators api pkHex
          then ([RespondError 400 (''not a known validator: '' @ pkHex)], True)
          else
            (let active = (if activeValidatorC_full reg then [] else [Chan_activeValidator pkHex])
             in case GetValidatorRegistrationTimestamp api (getTimestamp_error reg) pkHex of
                  (prevTimestamp, err) \<Rightarrow>
                    if err = None \<and> prevTimestamp \<ge> timestampInt then (active, False)
                    else
                      (case unmarshal_error reg of
                         Some e \<Rightarrow>
                           (active @ [Json_Unmarshal_registration,
                              RespondError 400
                                (''error unmarshalling signed validator registration: '' @ e)], True)
                       | None \<Rightarrow>
                           (case verifyRegistration reg of
                              (ok, Some e) \<Rightarrow>
                                (active @ [Json_Unmarshal_registration, VerifySignature_registration,
                                   RespondError 400
                                     (''error verifying registerValidator signature: '' @ e)], True)
                            | (False, None) \<Rightarrow>
                                (active @ [Json_Unmarshal_registration, VerifySignature_registration,
                                   RespondError 400
                                     (''failed to verify validator signature for ''
                                        @ message_Pubkey reg)], False)
                            | (True, None) \<Rightarrow>
                                (active @ [Json_Unmarshal_registration, VerifySignature_registration]
                                   @ (if validatorRegC_full reg then []
                                      else [Chan_validatorReg (message_Pubkey reg)]), False)))))"

text \<open>
  The iteration over the array: once \<open>processingStoppedByError\<close> is set the callback
  returns at once for every further element.
\<close>

fun registerEach :: "RelayAPI \<Rightarrow> int \<Rightarrow> bool \<Rightarrow> registration list \<Rightarrow> event list" where
  "registerEach api start_ns processingStoppedByError [] = []"
| "registerEach api start_ns processingStoppedByError (reg # regs) =
     (if processingStoppedByError then registerEach api start_ns True regs
      else (case processRegistration api start_ns reg of
              (evs, stopped) \<Rightarrow> evs @ registerEach api start_ns stopped regs))"

definition handleRegisterValidator :: "RelayAPI \<Rightarrow> int \<Rightarrow> register_request \<Rightarrow> event list" where
  "handleRegisterValidator api start_ns req =
     (if ContentLength req = 0 then [RespondError 400 ''empty request'']
      else (case readAll_error req of
              Some e \<Rightarrow> [RespondError 400 ''failed to read request body'']
            | None \<Rightarrow>
                registerEach api start_ns False (registrations req)
                @ (if arrayEach_error req then [RespondError 400 ''error in traversing json'']
                   else [WriteHeader 200])))"

subsection \<open>The paths of the pipeline\<close>

text \<open>
  One step of the relay on any path of the pipeline: a submission, the goroutine of an
  optimistic submission, a new head slot and its update of the optimistic slot and of the
  builder cache, and a payload request. The operator's handler is not among them.
\<close>

inductive pipeline_step :: "(string \<Rightarrow> u256 option) \<Rightarrow> RelayAPI \<Rightarrow> RelayAPI \<Rightarrow> bool"
  for unmarshalU256 :: "string \<Rightarrow> u256 option" where
  step_submission:
    "pipeline_step unmarshalU256 api (relayAfterSubmission api env req)"
| step_optimistic_block:
    "pipeline_step unmarshalU256 api
       (processOptimisticBlock api req sendResult statusError demotionError)"
| step_new_slot:
    "pipeline_step unmarshalU256 api (fst (processNewSlot api newHeadSlot))"
| step_optimistic_slot:
    "pipeline_step unmarshalU256 api
       (updateOptimisticSlot unmarshalU256 api newHeadSlot getBlockBuildersError)"
| step_get_payload:
    "pipeline_step unmarshalU256 api (snd (handleGetPayload api genv body))"

text \<open>A builder is demoted in the table when it has a row and each of its rows has the bit.\<close>

definition demotedInTable :: "BlockBuilderEntry list \<Rightarrow> string \<Rightarrow> bool" where
  "demotedInTable tbl pubkey =
     ((\<exists>r \<in> set tbl. builder_pubkey r = pubkey)
      \<and> (\<forall>r \<in> set tbl. builder_pubkey r = pubkey \<longrightarrow> is_demoted r))"

definition demotedInCache :: "RelayAPI \<Rightarrow> string \<Rightarrow> bool" where
  "demotedInCache api pubkey =
     (case blockBuildersCache api pubkey of
        None \<Rightarrow> False
      | Some e \<Rightarrow> IsDemoted (status e))"

text \<open>The value of \<open>processingStoppedByError\<close> after the callback has run on a list of elements.\<close>

fun stoppedAfter :: "RelayAPI \<Rightarrow> int \<Rightarrow> bool \<Rightarrow> registration list \<Rightarrow> bool" where
  "stoppedAfter api start_ns processingStoppedByError [] = processingStoppedByError"
| "stoppedAfter api start_ns processingStoppedByError (reg # regs) =
     (if processingStoppedByError then stoppedAfter api start_ns True regs
      else stoppedAfter api start_ns (snd (processRegistration api start_ns reg)) regs)"


subsection \<open>A relay at head slot 100 and requests for slot 101\<close>

text \<open>
  \<open>U256Str.UnmarshalText\<close> on decimal text, for the examples: the digits are parsed
  and the value must fit 256 bits.
\<close>

definition unmarshalDecimal :: "string \<Rightarrow> u256 option" where
  "unmarshalDecimal s =
     (if s = [] then None
      else case parse_digits 0 s of
             None \<Rightarrow> None
           | Some n \<Rightarrow> if n < 2 ^ 256 then Some (of_nat n) else None)"

definition duty101 :: RegisterValidatorRequestMessage where
  "duty101 = \<lparr>FeeRecipient = ''0xfee'', RegisteredGasLimit = 30000000\<rparr>"

definition relay100 :: RelayAPI where
  "relay100 =
     \<lparr>BlockBuilderAPI = True,
      headSlot = 100,
      genesisTime = 0,
      proposerDutiesMap =
        [101 \<mapsto> duty101],
      ffForceGetHeader204 = False,
      ffDisableLowPrioBuilders = False,
      expectedPrevRandao = \<lparr>randao_slot = 101, prevRandao = ''0xda0''\<rparr>,
      optimisticSlot = 101,
      blockBuildersCache =
        [''0xb1'' \<mapsto> \<lparr>status = \<lparr>IsHighPrio = True, IsBlacklisted = False, IsDemoted = False\<rparr>,
                     collateral = 100\<rparr>],
      redis_stats = Map.empty,
      redis_bestBid = Map.empty,
      redis_registrationTimestamp = [''0xa1'' \<mapsto> 100],
      knownValidators = (\<lambda>k. k = ''0xa1''),
      db_blockBuilders =
        [\<lparr>builder_pubkey = ''0xb1'', is_high_prio = True, is_blacklisted = False,
          is_demoted = False, collateral_value = ''100'', collateral_id = []\<rparr>],
      db_demotions = []\<rparr>"

definition trace101 :: "u256 \<Rightarrow> BidTrace" where
  "trace101 v =
     \<lparr>Slot = 101, ParentHash = ''0xaa'', BlockHash = ''0xbb'', BuilderPubkey = ''0xb1'',
      ProposerPubkey = ''0xa1'', ProposerFeeRecipient = ''0xfee'', Value = v\<rparr>"

definition payload101 :: ExecutionPayload where
  "payload101 =
     \<lparr>Timestamp = 1212, Random = ''0xda0'', BlockNumber = 7, Transactions = [''tx1'', ''tx2'']\<rparr>"

definition submission101 :: "u256 \<Rightarrow> submission" where
  "submission101 v = \<lparr>message = trace101 v, execution_payload = payload101\<rparr>"

definition request101 :: "u256 \<Rightarrow> submit_request" where
  "request101 v =
     \<lparr>gzipError = None, headerScan = ScanDone,
      decoded = Inr \<lparr>Message = Some (trace101 v), ExecutionPayload = Some payload101,
                    Signature = ''0x51''\<rparr>\<rparr>"

text \<open>Every call of the request succeeds; the simulator answers \<open>sim\<close>.\<close>

definition env_ok :: "string option \<Rightarrow> submit_env" where
  "env_ok sim =
     \<lparr>getStats_error = None,
      sanityCheck_error = None,
      randaoAtConfirmation = \<lparr>randao_slot = 101, prevRandao = ''0xda0''\<rparr>,
      verifySignature = (True, None),
      simulatorResult = sim,
      receivedAt_ms = 1206000,
      latestPayloadReceivedAt = Inr 0,
      signBid_error = None,
      saveBidTrace_error = None,
      saveExecutionPayload_error = None,
      saveLatestBuilderBid_error = None,
      updateTopBid_error = None,
      saveSubmission_error = None\<rparr>"

text \<open>The proposer of slot 101 asks for the payload of the block with hash 0xbb.\<close>

definition blinded101 :: SignedBlindedBeaconBlock where
  "blinded101 = \<lparr>blinded_Slot = 101, ProposerIndex = 7, header_BlockHash = ''0xbb''\<rparr>"

definition genv_ok :: getpayload_env where
  "genv_ok =
     \<lparr>pubkeyByIndex = Some ''0xa1'',
      hexToPubkey_error = None,
      verifyPayloadSignature = (True, None),
      getPayloadResponse1 = (Some ''payload 0xbb'', None),
      getPayloadResponse2 = (None, None),
      setStats_error = None\<rparr>"

definition relay100_delivered101 :: RelayAPI where
  "relay100_delivered101 = snd (handleGetPayload relay100 genv_ok (Inr blinded101))"

text \<open>
  The optimistic block of builder 0xb1 fails its simulation; later the builder cache is
  refreshed from the table.
\<close>

definition relay100_demoted :: RelayAPI where
  "relay100_demoted =
     processOptimisticBlock relay100 (submission101 5) (Some ''invalid block'') None None"

definition relay100_refreshed :: RelayAPI where
  "relay100_refreshed = updateOptimisticSlot unmarshalDecimal relay100_demoted 100 None"

text \<open>A header request for slot 101 with a parent hash of 66 and a public key of 98 characters.\<close>

definition errs0 :: common_errors where
  "errs0 = \<lparr>ErrInvalidSlot = ''invalid slot'', ErrInvalidPubkey = ''invalid pubkey'',
             ErrInvalidHash = ''invalid hash''\<rparr>"

definition header_request :: "string \<Rightarrow> getheader_request" where
  "header_request s =
     \<lparr>slotStr = s,
      parentHashHex = ''0x'' @ replicate 64 (CHR ''a''),
      proposerPubkeyHex = ''0x'' @ replicate 96 (CHR ''b'')\<rparr>"

definition zero_bid :: GetHeaderResponse where
  "zero_bid = \<lparr>Data = Some \<lparr>bid_Message = Some \<lparr>bid_Value = 0, bid_BlockHash = ''0xbb''\<rparr>\<rparr>\<rparr>"

text \<open>
  A registration of validator 0xa1, whose stored timestamp is 100, with every call
  succeeding; the request starts 1000 seconds after the epoch.
\<close>

definition registration_ok :: "u64 \<Rightarrow> registration" where
  "registration_ok t =
     \<lparr>parseRegistration = Inr (''0xa1'', t),
      getTimestamp_error = None,
      unmarshal_error = None,
      verifyRegistration = (True, None),
      message_Pubkey = ''0xa1'',
      activeValidatorC_full = False,
      validatorRegC_full = False\<rparr>"

definition start1000 :: int where
  "start1000 = 1000000000000"

definition register_request_of :: "registration list \<Rightarrow> register_request" where
  "register_request_of regs =
     \<lparr>ContentLength = 300, readAll_error = None, registrations = regs, arrayEach_error = False\<rparr>"

section \<open>Properties\<close>

subsection \<open>Decimal text\<close>






subsection \<open>Stages and their composition\<close>

lemmas stage_defs =
  decodeSubmission_def slotGate_def GetStats_def preValidation_def
  timestampCheck_def randaoRefresh_def dutyMatch_def statusGates_def pastSlotGate_def
  trivialityGate_def sanityCheck_def randaoConfirmation_def signatureVerification_def
  collateralBranch_def optimisticCondition_def builderEntry_def stalenessCheck_def
  bidConstruction_def cacheWrites_def deferredSave_def U256_Cmp_def ZeroU256_def
  simulateBlock_def

lemmas handler_defs =
  handleSubmitNewBlock_def beforeCacheWrites_def beforeCollateralBranch_def
  beforeRandaoConfirmation_def

lemmas example_defs =
  request101_def env_ok_def relay100_def trace101_def payload101_def submission101_def
  duty101_def blinded101_def genv_ok_def relay100_delivered101_def
  relay100_demoted_def relay100_refreshed_def

lemma bind_flow_assoc:
  "bind_flow (bind_flow m f) g = bind_flow m (\<lambda>a. bind_flow (f a) g)"
  by (cases m) (auto split: flow.splits)

lemma bind_flow_Continue_Nil: "bind_flow (Continue [] a) f = f a"
  by (cases "f a") auto

lemma bind_flow_Continue_iff:
  "bind_flow m f = Continue es b \<longleftrightarrow>
     (\<exists>es1 a es2. m = Continue es1 a \<and> f a = Continue es2 b \<and> es = es1 @ es2)"
  by (cases m) (auto split: flow.splits)

lemma events_of_bind_Continue:
  "events_of (bind_flow (Continue es a) f) = es @ events_of (f a)"
  by (auto split: flow.splits)

lemma events_of_bind_Return_events:
  "events_of (bind_flow m (\<lambda>a. Return (events_of (f a)) :: 'c flow)) = events_of (bind_flow m f)"
  by (cases m) (auto split: flow.splits)

lemma handle_from_collateralBranch:
  assumes "beforeCollateralBranch api env req = Continue evs (payload, slotDuty)"
  shows "handleSubmitNewBlock api env req =
           evs @ events_of (bind_flow (collateralBranch api env payload slotDuty)
                   (\<lambda>opt. fromStalenessCheck env payload opt))"
  by (simp add: handleSubmitNewBlock_def beforeCacheWrites_def fromStalenessCheck_def assms
       bind_flow_assoc events_of_bind_Continue bind_flow_Continue_Nil
       del: bind_flow.simps)

lemma handle_from_cacheWrites:
  assumes "beforeCacheWrites api env req = Continue evs (payload, opt)"
  shows "handleSubmitNewBlock api env req = evs @ cacheWrites env payload opt"
  by (simp add: handleSubmitNewBlock_def assms)


lemma handle_from_slotGate:
  assumes "decodeSubmission req = Continue evs payload"
  shows "handleSubmitNewBlock api env req =
           evs @ events_of (bind_flow (slotGate api env payload) (\<lambda>_.
                   fromBuilderLookup api env payload))"
  by (simp add: handleSubmitNewBlock_def beforeCacheWrites_def beforeCollateralBranch_def
       beforeRandaoConfirmation_def fromBuilderLookup_def assms split_def
       bind_flow_assoc events_of_bind_Continue bind_flow_Continue_Nil
       del: bind_flow.simps)

subsection \<open>The answer of the simulator\<close>

lemma stage_env_simulatorResult:
  "sanityCheck (env\<lparr>simulatorResult := x\<rparr>) = sanityCheck env"
  "slotGate api (env\<lparr>simulatorResult := x\<rparr>) payload = slotGate api env payload"
  "preValidation api (env\<lparr>simulatorResult := x\<rparr>) payload = preValidation api env payload"
  "randaoConfirmation (env\<lparr>simulatorResult := x\<rparr>) payload = randaoConfirmation env payload"
  "signatureVerification (env\<lparr>simulatorResult := x\<rparr>) = signatureVerification env"
  "deferredSave (env\<lparr>simulatorResult := x\<rparr>) e opt = deferredSave env e opt"
  "stalenessCheck (env\<lparr>simulatorResult := x\<rparr>) opt = stalenessCheck env opt"
  "bidConstruction (env\<lparr>simulatorResult := x\<rparr>) opt = bidConstruction env opt"
  "cacheWrites (env\<lparr>simulatorResult := x\<rparr>) payload opt = cacheWrites env payload opt"
  by (simp_all add: sanityCheck_def slotGate_def preValidation_def randaoConfirmation_def
      signatureVerification_def deferredSave_def stalenessCheck_def bidConstruction_def
      cacheWrites_def Let_def cong: if_cong option.case_cong sum.case_cong)

lemma simulateBlock_already_known: "simulateBlock (Some ErrBlockAlreadyKnown) = None"
  by (simp add: simulateBlock_def)

lemma collateralBranch_already_known:
  "collateralBranch api (env\<lparr>simulatorResult := Some ErrBlockAlreadyKnown\<rparr>) payload slotDuty =
     (if optimisticCondition api payload
      then Continue [Go_processOptimisticBlock payload (RegisteredGasLimit slotDuty)] True
      else Continue [Call_simulateBlock payload (RegisteredGasLimit slotDuty)] False)"
  by (simp add: collateralBranch_def simulateBlock_already_known)

lemma collateralBranch_sim_ok:
  "collateralBranch api (env\<lparr>simulatorResult := None\<rparr>) payload slotDuty =
     (if optimisticCondition api payload
      then Continue [Go_processOptimisticBlock payload (RegisteredGasLimit slotDuty)] True
      else Continue [Call_simulateBlock payload (RegisteredGasLimit slotDuty)] False)"
  by (simp add: collateralBranch_def simulateBlock_def)

subsection \<open>What has happened when a stage is reached\<close>

lemma decodeSubmission_Continue:
  "decodeSubmission req = Continue es payload \<Longrightarrow> es = []"
  by (auto simp: decodeSubmission_def split: option.splits header_scan.splits sum.splits)

lemma slotGate_Continue: "slotGate api env payload = Continue es u \<Longrightarrow> es = []"
  by (auto simp: slotGate_def split: prod.splits option.splits if_splits)

lemma preValidation_Continue:
  assumes "preValidation api env payload = Continue es (payload', slotDuty)"
  shows "es = events_of (randaoRefresh api payload) \<and> payload' = payload
         \<and> proposerDutiesMap api (Slot (message payload)) = Some slotDuty"
  using assms
  by (auto simp: preValidation_def bind_flow_Continue_iff timestampCheck_def randaoRefresh_def
      dutyMatch_def statusGates_def pastSlotGate_def trivialityGate_def sanityCheck_def Let_def
      split: option.splits if_splits)

lemma beforeRandaoConfirmation_Continue:
  assumes "beforeRandaoConfirmation api env req = Continue es (payload, slotDuty)"
  shows "es = events_of (randaoRefresh api payload)
         \<and> decodeSubmission req = Continue [] payload"
proof -
  from assms obtain es1 p es2 es3 where
    d: "decodeSubmission req = Continue es1 p" and
    g: "slotGate api env p = Continue es2 ()" and
    v: "preValidation api env p = Continue es3 (payload, slotDuty)" and
    e: "es = es1 @ es2 @ es3"
    by (auto simp: beforeRandaoConfirmation_def bind_flow_Continue_iff)
  from v have "es3 = events_of (randaoRefresh api p)" and "payload = p"
    using preValidation_Continue by blast+
  with d g e show ?thesis
    using decodeSubmission_Continue slotGate_Continue by fastforce
qed

lemma beforeCollateralBranch_Continue:
  assumes "beforeCollateralBranch api env req = Continue es (payload, slotDuty)"
  shows "es = events_of (randaoRefresh api payload)"
proof -
  from assms obtain es1 es2 where
    b: "beforeRandaoConfirmation api env req = Continue es1 (payload, slotDuty)" and
    r: "bind_flow (randaoConfirmation env payload) (\<lambda>_.
          bind_flow (signatureVerification env) (\<lambda>_. Continue [] (payload, slotDuty)))
        = Continue es2 (payload, slotDuty)" and
    e: "es = es1 @ es2"
    by (auto simp: beforeCollateralBranch_def bind_flow_Continue_iff)
  from r have "es2 = []"
    by (auto simp: bind_flow_Continue_iff randaoConfirmation_def signatureVerification_def
        Let_def split: if_splits prod.splits)
  with b e show ?thesis
    using beforeRandaoConfirmation_Continue by fastforce
qed

lemma randaoRefresh_events:
  "e \<in> set (events_of (randaoRefresh api payload)) \<Longrightarrow>
     \<not> is_optimistic_start e \<and> \<not> is_simulateBlock_call e \<and> \<not> is_bid_store_write e"
  by (auto simp: randaoRefresh_def split: if_splits)

lemma deferredSave_events:
  "e \<in> set (deferredSave env simErr opt) \<Longrightarrow>
     \<not> is_optimistic_start e \<and> \<not> is_simulateBlock_call e \<and> \<not> is_bid_store_write e"
  by (auto simp: deferredSave_def split: option.splits)

lemma fromStalenessCheck_events:
  "e \<in> set (events_of (fromStalenessCheck env payload opt)) \<Longrightarrow>
     \<not> is_optimistic_start e \<and> \<not> is_simulateBlock_call e"
  by (auto simp: fromStalenessCheck_def stalenessCheck_def bidConstruction_def cacheWrites_def
      deferredSave_def Let_def split: sum.splits option.splits if_splits)


lemma collateralBranch_Continue:
  assumes "collateralBranch api env payload slotDuty = Continue es opt"
  shows "\<forall>e \<in> set es. \<not> is_bid_store_write e"
  using assms
  by (auto simp: collateralBranch_def split: if_splits option.splits)

lemma beforeCacheWrites_Continue:
  assumes "beforeCacheWrites api env req = Continue es (payload, opt)"
  shows "filter is_bid_store_write es = []"
proof -
  from assms obtain es1 d es2 es3 where
    b: "beforeCollateralBranch api env req = Continue es1 (payload, d)" and
    c: "collateralBranch api env payload d = Continue es2 opt" and
    r: "bind_flow (stalenessCheck env opt) (\<lambda>_.
          bind_flow (bidConstruction env opt) (\<lambda>_. Continue [] (payload, opt)))
        = Continue es3 (payload, opt)" and
    e: "es = es1 @ es2 @ es3"
    by (auto simp: beforeCacheWrites_def bind_flow_Continue_iff)
  from r have "es3 = []"
    by (auto simp: bind_flow_Continue_iff stalenessCheck_def bidConstruction_def
        split: sum.splits option.splits if_splits)
  moreover have "\<forall>e \<in> set es1. \<not> is_bid_store_write e"
    using beforeCollateralBranch_Continue [OF b] randaoRefresh_events by blast
  moreover note collateralBranch_Continue [OF c]
  ultimately show ?thesis
    using e by (auto simp: filter_empty_conv)
qed

subsection \<open>The delivered-slot marker\<close>



subsection \<open>getHeader on well-formed parameters\<close>

lemma handleGetHeader_wellformed:
  assumes "ParseUint (slotStr req) = Some sl"
    and "length (proposerPubkeyHex req) = 98"
    and "length (parentHashHex req) = 66"
  shows "handleGetHeader api errs getBestBid_error req =
     (if sl < headSlot api then [RespondError 400 ''slot is too old'']
      else if ffForceGetHeader204 api then [WriteHeader 204]
      else (case getBestBid_error of
              Some e \<Rightarrow> [RespondError 400 e]
            | None \<Rightarrow>
               (case redis_bestBid api (sl, parentHashHex req, proposerPubkeyHex req) of
                  None \<Rightarrow> [WriteHeader 204]
                | Some b \<Rightarrow>
                    (case Data b of
                       None \<Rightarrow> [WriteHeader 204]
                     | Some d \<Rightarrow>
                         (case bid_Message d of
                            None \<Rightarrow> [WriteHeader 204]
                          | Some m \<Rightarrow>
                              if bid_Value m = 0 then [WriteHeader 204]
                              else [RespondOK_GetHeader b])))))"
  using assms
  by (simp add: handleGetHeader_def GetBestBid_def U256_Cmp_def ZeroU256_def
      split: option.splits)

subsection \<open>Demotion in the table and in the cache\<close>

lemma GetBlockBuilderByPubkey_Some:
  "GetBlockBuilderByPubkey tbl pubkey = Some b \<Longrightarrow> b \<in> set tbl \<and> builder_pubkey b = pubkey"
  by (auto simp: GetBlockBuilderByPubkey_def find_Some_iff)

lemma GetBlockBuilderByPubkey_None:
  "GetBlockBuilderByPubkey tbl pubkey = None \<Longrightarrow> \<forall>r \<in> set tbl. builder_pubkey r \<noteq> pubkey"
  by (auto simp: GetBlockBuilderByPubkey_def find_None_iff)

lemma demotedInTable_map:
  assumes "demotedInTable tbl pubkey"
    and "\<And>r. builder_pubkey (f r) = builder_pubkey r"
    and "\<And>r. is_demoted r \<Longrightarrow> is_demoted (f r)"
  shows "demotedInTable (map f tbl) pubkey"
proof -
  from assms(1) obtain r where r: "r \<in> set tbl" "builder_pubkey r = pubkey"
    unfolding demotedInTable_def by blast
  from assms(1) have d: "\<And>x. x \<in> set tbl \<Longrightarrow> builder_pubkey x = pubkey \<Longrightarrow> is_demoted x"
    unfolding demotedInTable_def by blast
  have "f r \<in> set (map f tbl)" using r(1) by simp
  moreover have "builder_pubkey (f r) = pubkey" using r(2) assms(2) by simp
  ultimately have ex: "\<exists>x \<in> set (map f tbl). builder_pubkey x = pubkey" by blast
  have all: "\<forall>x \<in> set (map f tbl). builder_pubkey x = pubkey \<longrightarrow> is_demoted x"
  proof (intro ballI impI)
    fix x assume "x \<in> set (map f tbl)" and k: "builder_pubkey x = pubkey"
    then obtain y where y: "y \<in> set tbl" "x = f y" by auto
    with k assms(2) have "builder_pubkey y = pubkey" by simp
    with y d assms(3) show "is_demoted x" by simp
  qed
  from ex all show ?thesis unfolding demotedInTable_def by blast
qed

lemma SetBlockBuilderStatus_map:
  "GetBlockBuilderByPubkey tbl pubkey = Some b \<Longrightarrow>
     SetBlockBuilderStatus tbl pubkey st = map (statusWrite b pubkey st) tbl"
  by (simp add: SetBlockBuilderStatus_def)

lemma statusWrite_key: "builder_pubkey (statusWrite b pubkey st r) = builder_pubkey r"
  by (simp add: statusWrite_def)

lemma statusWrite_demoted:
  "IsDemoted st \<Longrightarrow> is_demoted r \<Longrightarrow> is_demoted (statusWrite b pubkey st r)"
  by (simp add: statusWrite_def)

lemma statusWrite_own:
  "IsDemoted st \<Longrightarrow> builder_pubkey r = pubkey \<Longrightarrow> is_demoted (statusWrite b pubkey st r)"
  by (simp add: statusWrite_def)

lemma SetBlockBuilderStatus_demotes:
  assumes "GetBlockBuilderByPubkey tbl pubkey = Some b" and "IsDemoted st"
  shows "demotedInTable (SetBlockBuilderStatus tbl pubkey st) pubkey"
proof -
  have b: "b \<in> set tbl" "builder_pubkey b = pubkey"
    using GetBlockBuilderByPubkey_Some [OF assms(1)] by simp_all
  let ?f = "statusWrite b pubkey st"
  have "?f b \<in> set (map ?f tbl)" using b(1) by simp
  moreover have "builder_pubkey (?f b) = pubkey" using b(2) by (simp add: statusWrite_key)
  ultimately have ex: "\<exists>x \<in> set (map ?f tbl). builder_pubkey x = pubkey" by blast
  have all: "\<forall>x \<in> set (map ?f tbl). builder_pubkey x = pubkey \<longrightarrow> is_demoted x"
  proof (intro ballI impI)
    fix x assume "x \<in> set (map ?f tbl)" and k: "builder_pubkey x = pubkey"
    then obtain y where y: "y \<in> set tbl" "x = ?f y" by auto
    with k have "builder_pubkey y = pubkey" by (simp add: statusWrite_key)
    with y assms(2) show "is_demoted x" by (simp add: statusWrite_own)
  qed
  from ex all show ?thesis
    unfolding demotedInTable_def SetBlockBuilderStatus_map [OF assms(1)] by blast
qed

lemma SetBlockBuilderStatus_keeps_demoted:
  assumes "demotedInTable tbl pubkey" and "IsDemoted st"
  shows "demotedInTable (SetBlockBuilderStatus tbl other st) pubkey"
proof (cases "GetBlockBuilderByPubkey tbl other")
  case None
  with assms show ?thesis by (simp add: SetBlockBuilderStatus_def)
next
  case (Some b)
  show ?thesis
    unfolding SetBlockBuilderStatus_map [OF Some]
    using assms(1) statusWrite_key statusWrite_demoted [OF assms(2)]
    by (rule demotedInTable_map)
qed

lemma Upsert_keeps_demoted:
  assumes "demotedInTable tbl pubkey"
  shows "demotedInTable (UpsertBlockBuilderEntryAfterSubmission tbl other) pubkey"
proof (cases "GetBlockBuilderByPubkey tbl other")
  case (Some b)
  with assms show ?thesis by (simp add: UpsertBlockBuilderEntryAfterSubmission_def)
next
  case None
  from assms obtain r where r: "r \<in> set tbl" "builder_pubkey r = pubkey"
    unfolding demotedInTable_def by blast
  with GetBlockBuilderByPubkey_None [OF None] have ne: "other \<noteq> pubkey" by blast
  let ?new = "\<lparr>builder_pubkey = other, is_high_prio = False, is_blacklisted = False,
                is_demoted = False, collateral_value = ''0'', collateral_id = []\<rparr>"
  have u: "UpsertBlockBuilderEntryAfterSubmission tbl other = tbl @ [?new]"
    using None by (simp add: UpsertBlockBuilderEntryAfterSubmission_def)
  have k: "builder_pubkey ?new \<noteq> pubkey" using ne by simp
  have ex: "\<exists>x \<in> set (tbl @ [?new]). builder_pubkey x = pubkey" using r by auto
  have all: "\<forall>x \<in> set (tbl @ [?new]). builder_pubkey x = pubkey \<longrightarrow> is_demoted x"
  proof (intro ballI impI)
    fix x assume x: "x \<in> set (tbl @ [?new])" and kx: "builder_pubkey x = pubkey"
    with k have "x \<in> set tbl" by auto
    with kx assms show "is_demoted x" unfolding demotedInTable_def by blast
  qed
  from ex all show ?thesis unfolding u demotedInTable_def by blast
qed

lemma refreshBuilderCache_demoted:
  assumes "\<forall>r \<in> set rows. builder_pubkey r = pubkey \<longrightarrow> is_demoted r"
    and "(\<exists>r \<in> set rows. builder_pubkey r = pubkey)
         \<or> (\<exists>e. cache pubkey = Some e \<and> IsDemoted (status e))"
  shows "\<exists>e. refreshBuilderCache u cache rows pubkey = Some e \<and> IsDemoted (status e)"
  using assms
proof (induction rows arbitrary: cache)
  case Nil
  then show ?case by simp
next
  case (Cons v rows)
  let ?c = "cache(builder_pubkey v \<mapsto> cacheEntryOfRow u v)"
  have rest: "\<forall>r \<in> set rows. builder_pubkey r = pubkey \<longrightarrow> is_demoted r"
    using Cons.prems(1) by simp
  have disj: "(\<exists>r \<in> set rows. builder_pubkey r = pubkey)
         \<or> (\<exists>e. ?c pubkey = Some e \<and> IsDemoted (status e))"
  proof (cases "builder_pubkey v = pubkey")
    case True
    with Cons.prems(1) have "is_demoted v" by simp
    with True have "?c pubkey = Some (cacheEntryOfRow u v)"
      and "IsDemoted (status (cacheEntryOfRow u v))"
      by (simp_all add: cacheEntryOfRow_def)
    then show ?thesis by blast
  next
    case False
    then have "?c pubkey = cache pubkey" by simp
    with False Cons.prems(2) show ?thesis by auto
  qed
  from rest disj
  have "\<exists>e. refreshBuilderCache u ?c rows pubkey = Some e \<and> IsDemoted (status e)"
    by (rule Cons.IH)
  then show ?case by (simp only: refreshBuilderCache.simps)
qed

lemma demotedStatus_IsDemoted: "IsDemoted (demotedStatus api pubkey)"
  by (simp add: demotedStatus_def Let_def)

lemma demoteBuilder_table:
  "db_blockBuilders (demoteBuilder api pubkey req simErr statusError demotionError) =
     (case statusError of
        None \<Rightarrow> SetBlockBuilderStatus (db_blockBuilders api) pubkey (demotedStatus api pubkey)
      | Some e \<Rightarrow> db_blockBuilders api)"
  by (cases statusError; cases demotionError) (simp_all add: demoteBuilder_def Let_def)

lemma demoteBuilder_cache:
  "blockBuildersCache (demoteBuilder api pubkey req simErr statusError demotionError)
     = blockBuildersCache api"
  by (cases statusError; cases demotionError) (simp_all add: demoteBuilder_def Let_def)

lemma pipeline_step_table:
  assumes "pipeline_step u api api'" and "demotedInTable (db_blockBuilders api) pubkey"
  shows "demotedInTable (db_blockBuilders api') pubkey"
  using assms
proof (cases rule: pipeline_step.cases)
  case (step_submission env req)
  with assms(2) show ?thesis
    by (auto simp: relayAfterSubmission_def Upsert_keeps_demoted split: flow.splits)
next
  case (step_optimistic_block req sendResult statusError demotionError)
  with assms(2) show ?thesis
    by (auto simp: processOptimisticBlock_def demoteBuilder_table demotedStatus_IsDemoted
        SetBlockBuilderStatus_keeps_demoted split: option.splits)
next
  case (step_new_slot newHeadSlot)
  with assms(2) show ?thesis by (simp add: processNewSlot_def)
next
  case (step_optimistic_slot newHeadSlot getBlockBuildersError)
  with assms(2) show ?thesis
    by (simp add: updateOptimisticSlot_def Let_def split: option.splits)
next
  case (step_get_payload genv body)
  have "db_blockBuilders (snd (handleGetPayload api genv body)) = db_blockBuilders api"
    by (auto simp: handleGetPayload_def deliverPayload_def SetStats_def
        split: sum.splits option.splits prod.splits if_splits)
  with step_get_payload assms(2) show ?thesis by simp
qed

lemma pipeline_step_cache:
  assumes "pipeline_step u api api'" and "demotedInTable (db_blockBuilders api) pubkey"
    and "demotedInCache api pubkey"
  shows "demotedInCache api' pubkey"
  using assms(1)
proof (cases rule: pipeline_step.cases)
  case (step_submission env req)
  with assms(3) show ?thesis
    by (auto simp: relayAfterSubmission_def demotedInCache_def split: flow.splits)
next
  case (step_optimistic_block req sendResult statusError demotionError)
  with assms(3) show ?thesis
    by (auto simp: processOptimisticBlock_def demoteBuilder_cache demotedInCache_def
        split: option.splits)
next
  case (step_new_slot newHeadSlot)
  with assms(3) show ?thesis by (simp add: processNewSlot_def demotedInCache_def)
next
  case (step_optimistic_slot newHeadSlot getBlockBuildersError)
  show ?thesis
  proof (cases getBlockBuildersError)
    case (Some e)
    with step_optimistic_slot assms(3) show ?thesis
      by (simp add: updateOptimisticSlot_def Let_def demotedInCache_def)
  next
    case None
    have "\<exists>e. refreshBuilderCache u (blockBuildersCache api) (db_blockBuilders api) pubkey = Some e
            \<and> IsDemoted (status e)"
      using assms(2) by (intro refreshBuilderCache_demoted) (auto simp: demotedInTable_def)
    with None step_optimistic_slot show ?thesis
      by (auto simp: updateOptimisticSlot_def Let_def demotedInCache_def)
  qed
next
  case (step_get_payload genv body)
  have "blockBuildersCache (snd (handleGetPayload api genv body)) = blockBuildersCache api"
    by (auto simp: handleGetPayload_def deliverPayload_def SetStats_def
        split: sum.splits option.splits prod.splits if_splits)
  with step_get_payload assms(3) show ?thesis by (simp add: demotedInCache_def)
qed

lemma pipeline_steps_table:
  assumes "rtranclp (pipeline_step u) api api'" and "demotedInTable (db_blockBuilders api) pubkey"
  shows "demotedInTable (db_blockBuilders api') pubkey"
  using assms by (induction rule: rtranclp_induct) (auto intro: pipeline_step_table)

lemma pipeline_steps_cache:
  assumes "rtranclp (pipeline_step u) api api'" and "demotedInTable (db_blockBuilders api) pubkey"
    and "demotedInCache api pubkey"
  shows "demotedInCache api' pubkey"
  using assms
proof (induction rule: rtranclp_induct)
  case base
  then show ?case by simp
next
  case (step y z)
  then show ?case
    using pipeline_step_cache pipeline_steps_table by blast
qed

lemma refresh_establishes_cache:
  assumes "demotedInTable (db_blockBuilders api) pubkey"
  shows "demotedInCache (updateOptimisticSlot u api newHeadSlot None) pubkey"
proof -
  have "\<exists>e. refreshBuilderCache u (blockBuildersCache api) (db_blockBuilders api) pubkey = Some e
          \<and> IsDemoted (status e)"
    using assms by (intro refreshBuilderCache_demoted) (auto simp: demotedInTable_def)
  then show ?thesis
    by (auto simp: updateOptimisticSlot_def Let_def demotedInCache_def)
qed

lemma demotedInCache_not_optimistic:
  assumes "demotedInCache api (BuilderPubkey (message payload))"
  shows "\<not> optimisticCondition api payload"
  using assms
  by (auto simp: demotedInCache_def optimisticCondition_def builderEntry_def split: option.splits)

lemma bind_flow_events:
  assumes "e \<in> set (events_of (bind_flow m f))"
  obtains "e \<in> set (events_of m)"
  | es a where "m = Continue es a" and "e \<in> set (events_of (f a))"
  using assms by (cases m) (auto split: flow.splits)

lemma early_stage_events:
  "e \<in> set (events_of (decodeSubmission req)) \<Longrightarrow> \<not> is_optimistic_start e"
  "e \<in> set (events_of (slotGate api env payload)) \<Longrightarrow> \<not> is_optimistic_start e"
  "e \<in> set (events_of (timestampCheck api payload)) \<Longrightarrow> \<not> is_optimistic_start e"
  "e \<in> set (events_of (dutyMatch api payload)) \<Longrightarrow> \<not> is_optimistic_start e"
  "e \<in> set (events_of (statusGates api payload)) \<Longrightarrow> \<not> is_optimistic_start e"
  "e \<in> set (events_of (pastSlotGate api payload)) \<Longrightarrow> \<not> is_optimistic_start e"
  "e \<in> set (events_of (trivialityGate payload)) \<Longrightarrow> \<not> is_optimistic_start e"
  "e \<in> set (events_of (sanityCheck env)) \<Longrightarrow> \<not> is_optimistic_start e"
  "e \<in> set (events_of (randaoConfirmation env payload)) \<Longrightarrow> \<not> is_optimistic_start e"
  "e \<in> set (events_of (signatureVerification env)) \<Longrightarrow> \<not> is_optimistic_start e"
  by (auto simp: decodeSubmission_def slotGate_def timestampCheck_def dutyMatch_def
      statusGates_def pastSlotGate_def trivialityGate_def sanityCheck_def randaoConfirmation_def
      signatureVerification_def Let_def
      split: option.splits header_scan.splits sum.splits prod.splits if_splits)

lemma beforeCollateralBranch_events:
  assumes "e \<in> set (events_of (beforeCollateralBranch api env req))"
  shows "\<not> is_optimistic_start e"
  using assms
  unfolding beforeCollateralBranch_def beforeRandaoConfirmation_def preValidation_def
  by (auto elim!: bind_flow_events
      dest: early_stage_events randaoRefresh_events [THEN conjunct1])

lemma handle_optimistic_start:
  assumes "decodeSubmission req = Continue evs payload"
    and "e \<in> set (handleSubmitNewBlock api env req)"
    and "is_optimistic_start e"
  shows "optimisticCondition api payload"
proof (cases "beforeCollateralBranch api env req")
  case (Return es)
  then have "handleSubmitNewBlock api env req = es"
    by (simp add: handleSubmitNewBlock_def beforeCacheWrites_def)
  with Return assms(2,3) show ?thesis
    using beforeCollateralBranch_events [of e api env req] by simp
next
  case (Continue es ctx)
  obtain p d where ctx: "ctx = (p, d)" by (cases ctx)
  note c = Continue [unfolded ctx]
  from c obtain es1 where "beforeRandaoConfirmation api env req = Continue es1 (p, d)"
    by (auto simp: beforeCollateralBranch_def bind_flow_Continue_iff)
  then have "decodeSubmission req = Continue [] p"
    using beforeRandaoConfirmation_Continue by blast
  with assms(1) have p: "p = payload" by simp
  have es: "\<And>x. x \<in> set es \<Longrightarrow> \<not> is_optimistic_start x"
    using beforeCollateralBranch_Continue [OF c] randaoRefresh_events by blast
  show ?thesis
  proof (rule ccontr)
    assume n: "\<not> optimisticCondition api payload"
    have "\<not> is_optimistic_start e"
      using assms(2) es n deferredSave_events fromStalenessCheck_events
      unfolding handle_from_collateralBranch [OF c] p
      by (cases "simulateBlock (simulatorResult env)")
        (auto simp: collateralBranch_def events_of_bind_Continue simp del: bind_flow.simps(2))
    with assms(3) show False by simp
  qed
qed

lemmas demotion_defs =
  processOptimisticBlock_def demoteBuilder_def demotedStatus_def SetBlockBuilderStatus_def
  GetBlockBuilderByPubkey_def statusWrite_def updateOptimisticSlot_def cacheEntryOfRow_def
  unmarshalDecimal_def digit_val_def ErrBlockAlreadyKnown_def

subsection \<open>Registrations\<close>


lemma registerEach_append:
  "registerEach api start_ns stopped (xs @ ys) =
     registerEach api start_ns stopped xs
       @ registerEach api start_ns (stoppedAfter api start_ns stopped xs) ys"
  by (induction xs arbitrary: stopped) (auto split: prod.splits)

lemma registerEach_stopped: "registerEach api start_ns True regs = []"
  by (induction regs) auto


lemmas registration_defs =
  processRegistration_def tooFarInFuture_def GetValidatorRegistrationTimestamp_def
  registration_ok_def start1000_def register_request_of_def handleRegisterValidator_def

text \<open>
  A timestamp below zero is not compared as such: its 64 bits are read unsigned, so the
  element is decoded although its timestamp is older than the stored one.
\<close>

lemma negative_timestamp_is_decoded:
  "sint (18446744073709551615 :: u64) = - 1
   \<and> processRegistration relay100 start1000
        (registration_ok 18446744073709551615\<lparr>unmarshal_error := Some ''invalid syntax''\<rparr>) =
       ([Chan_activeValidator ''0xa1'', Json_Unmarshal_registration,
         RespondError 400
           ''error unmarshalling signed validator registration: invalid syntax''], True)"
  by (simp add: registration_defs relay100_def Let_def)

section \<open>The claims\<close>






text \<open>
  Claim C3, as stated: once the optimistic post-processing has set the demoted bit of a
  builder, every later submission of that builder takes the synchronous path. It fails
  for the submissions handled before the builder cache is refreshed: demotion writes the
  bit to the table, the handler reads the cache. Below, the block of builder 0xb1 fails
  its simulation and the table holds the bit, yet the next submission of 0xb1 is
  processed optimistically.
\<close>

theorem C3_counterexample:
  "simulateBlock (Some ''invalid block'') = Some ''invalid block''
   \<and> relay100_demoted =
       processOptimisticBlock relay100 (submission101 5) (Some ''invalid block'') None None
   \<and> db_blockBuilders relay100_demoted =
       [\<lparr>builder_pubkey = ''0xb1'', is_high_prio = True, is_blacklisted = False,
         is_demoted = True, collateral_value = ''100'', collateral_id = []\<rparr>]
   \<and> BuilderPubkey (trace101 6) = BuilderPubkey (trace101 5)
   \<and> handleSubmitNewBlock relay100_demoted (env_ok None) (request101 6) =
       [Go_processOptimisticBlock (submission101 6) 30000000,
        Redis_SaveBidTrace (trace101 6), Redis_SaveExecutionPayload 101 ''0xa1'' ''0xbb'',
        Redis_SaveLatestBuilderBid 101 ''0xb1'' ''0xaa'' ''0xa1'',
        Redis_UpdateTopBid 101 ''0xaa'' ''0xa1'', WriteHeader 200,
        DB_SaveBuilderBlockSubmission None True, DB_UpsertBlockBuilderEntryAfterSubmission False]"
proof -
  have a: "simulateBlock (Some ''invalid block'') = Some ''invalid block''"
    by (simp add: simulateBlock_def ErrBlockAlreadyKnown_def)
  have b: "db_blockBuilders relay100_demoted =
       [\<lparr>builder_pubkey = ''0xb1'', is_high_prio = True, is_blacklisted = False,
         is_demoted = True, collateral_value = ''100'', collateral_id = []\<rparr>]"
    by (simp add: relay100_demoted_def demotion_defs simulateBlock_def Let_def
        relay100_def submission101_def trace101_def)
  have c: "BuilderPubkey (trace101 6) = BuilderPubkey (trace101 5)"
    by (simp add: trace101_def)
  have d: "handleSubmitNewBlock relay100_demoted (env_ok None) (request101 6) =
       [Go_processOptimisticBlock (submission101 6) 30000000,
        Redis_SaveBidTrace (trace101 6), Redis_SaveExecutionPayload 101 ''0xa1'' ''0xbb'',
        Redis_SaveLatestBuilderBid 101 ''0xb1'' ''0xaa'' ''0xa1'',
        Redis_UpdateTopBid 101 ''0xaa'' ''0xa1'', WriteHeader 200,
        DB_SaveBuilderBlockSubmission None True, DB_UpsertBlockBuilderEntryAfterSubmission False]"
    by (simp add: handler_defs stage_defs relay100_demoted_def demotion_defs Let_def
        request101_def env_ok_def relay100_def trace101_def payload101_def submission101_def
        duty101_def ParseUint_def)
  from a b c d show ?thesis by (simp add: relay100_demoted_def)
qed

text \<open>
  Claim C3, amended: once the optimistic post-processing has set the demoted bit of a
  builder in the block-builder table, no path of the pipeline clears it, and from the
  next refresh of the builder cache that reads the table (\<open>updateOptimisticSlot\<close>)
  every submission of that builder takes the synchronous path: none is processed
  optimistically, and one that reaches the branch on collateral is simulated in the
  handler. Only the operator's handler can clear the bit.
\<close>

theorem C3_demotion_effective_after_refresh:
  assumes "GetBlockBuilderByPubkey (db_blockBuilders api0) (BuilderPubkey (message req0)) = Some row"
    and "simulateBlock sendResult = Some simErr"
    and "api1 = processOptimisticBlock api0 req0 sendResult None demotionError"
    and "rtranclp (pipeline_step u) api1 api2"
    and "api3 = updateOptimisticSlot u api2 newHeadSlot None"
    and "rtranclp (pipeline_step u) api3 api4"
    and "decodeSubmission req = Continue evs payload"
    and "BuilderPubkey (message payload) = BuilderPubkey (message req0)"
  shows "demotedInTable (db_blockBuilders api1) (BuilderPubkey (message req0))
       \<and> demotedInTable (db_blockBuilders api4) (BuilderPubkey (message req0))
       \<and> demotedInCache api4 (BuilderPubkey (message req0))
       \<and> \<not> optimisticCondition api4 payload
       \<and> (\<forall>e \<in> set (handleSubmitNewBlock api4 env req). \<not> is_optimistic_start e)
       \<and> (\<forall>evs' slotDuty.
             beforeCollateralBranch api4 env req = Continue evs' (payload, slotDuty) \<longrightarrow>
             Call_simulateBlock payload (RegisteredGasLimit slotDuty)
               \<in> set (handleSubmitNewBlock api4 env req))"
proof -
  let ?b = "BuilderPubkey (message req0)"
  have t1: "demotedInTable (db_blockBuilders api1) ?b"
    using assms(1,2)
    by (simp add: assms(3) processOptimisticBlock_def demoteBuilder_table
        SetBlockBuilderStatus_demotes demotedStatus_IsDemoted)
  have t2: "demotedInTable (db_blockBuilders api2) ?b"
    using pipeline_steps_table [OF assms(4) t1] .
  have t3: "demotedInTable (db_blockBuilders api3) ?b"
    using t2 by (simp add: assms(5) updateOptimisticSlot_def Let_def)
  have c3: "demotedInCache api3 ?b"
    unfolding assms(5) using t2 by (rule refresh_establishes_cache)
  have t4: "demotedInTable (db_blockBuilders api4) ?b"
    using pipeline_steps_table [OF assms(6) t3] .
  have c4: "demotedInCache api4 ?b"
    using pipeline_steps_cache [OF assms(6) t3 c3] .
  have n: "\<not> optimisticCondition api4 payload"
    using c4 demotedInCache_not_optimistic [of api4 payload] by (simp add: assms(8))
  have no: "\<forall>e \<in> set (handleSubmitNewBlock api4 env req). \<not> is_optimistic_start e"
    using handle_optimistic_start [OF assms(7)] n by blast
  have sync: "\<forall>evs' slotDuty.
             beforeCollateralBranch api4 env req = Continue evs' (payload, slotDuty) \<longrightarrow>
             Call_simulateBlock payload (RegisteredGasLimit slotDuty)
               \<in> set (handleSubmitNewBlock api4 env req)"
  proof (intro allI impI)
    fix evs' slotDuty
    assume c: "beforeCollateralBranch api4 env req = Continue evs' (payload, slotDuty)"
    show "Call_simulateBlock payload (RegisteredGasLimit slotDuty)
               \<in> set (handleSubmitNewBlock api4 env req)"
      unfolding handle_from_collateralBranch [OF c] using n
      by (cases "simulateBlock (simulatorResult env)")
        (auto simp: collateralBranch_def events_of_bind_Continue simp del: bind_flow.simps(2))
  qed
  from t1 t4 c4 n no sync show ?thesis by blast
qed

theorem C3_witness:
  "GetBlockBuilderByPubkey (db_blockBuilders relay100) (BuilderPubkey (message (submission101 5)))
     = Some \<lparr>builder_pubkey = ''0xb1'', is_high_prio = True, is_blacklisted = False,
              is_demoted = False, collateral_value = ''100'', collateral_id = []\<rparr>
   \<and> simulateBlock (Some ''invalid block'') = Some ''invalid block''
   \<and> rtranclp (pipeline_step unmarshalDecimal) relay100_demoted relay100_demoted
   \<and> rtranclp (pipeline_step unmarshalDecimal) relay100_refreshed relay100_refreshed
   \<and> decodeSubmission (request101 6) = Continue [] (submission101 6)
   \<and> BuilderPubkey (message (submission101 6)) = BuilderPubkey (message (submission101 5))
   \<and> demotedInTable (db_blockBuilders relay100_refreshed) ''0xb1''
   \<and> demotedInCache relay100_refreshed ''0xb1''
   \<and> \<not> optimisticCondition relay100_refreshed (submission101 6)
   \<and> handleSubmitNewBlock relay100_refreshed (env_ok None) (request101 6) =
       [Call_simulateBlock (submission101 6) 30000000,
        Redis_SaveBidTrace (trace101 6), Redis_SaveExecutionPayload 101 ''0xa1'' ''0xbb'',
        Redis_SaveLatestBuilderBid 101 ''0xb1'' ''0xaa'' ''0xa1'',
        Redis_UpdateTopBid 101 ''0xaa'' ''0xa1'', WriteHeader 200,
        DB_SaveBuilderBlockSubmission None False, DB_UpsertBlockBuilderEntryAfterSubmission False]"
proof -
  have a: "GetBlockBuilderByPubkey (db_blockBuilders relay100)
             (BuilderPubkey (message (submission101 5)))
     = Some \<lparr>builder_pubkey = ''0xb1'', is_high_prio = True, is_blacklisted = False,
              is_demoted = False, collateral_value = ''100'', collateral_id = []\<rparr>"
    by (simp add: GetBlockBuilderByPubkey_def relay100_def submission101_def trace101_def)
  have b: "simulateBlock (Some ''invalid block'') = Some ''invalid block''"
    by (simp add: simulateBlock_def ErrBlockAlreadyKnown_def)
  have d: "decodeSubmission (request101 6) = Continue [] (submission101 6)"
    by (simp add: decodeSubmission_def request101_def submission101_def)
  have k: "BuilderPubkey (message (submission101 6)) = BuilderPubkey (message (submission101 5))"
    by (simp add: submission101_def trace101_def)
  have k5: "BuilderPubkey (message (submission101 5)) = ''0xb1''"
    by (simp add: submission101_def trace101_def)
  have h: "handleSubmitNewBlock relay100_refreshed (env_ok None) (request101 6) =
       [Call_simulateBlock (submission101 6) 30000000,
        Redis_SaveBidTrace (trace101 6), Redis_SaveExecutionPayload 101 ''0xa1'' ''0xbb'',
        Redis_SaveLatestBuilderBid 101 ''0xb1'' ''0xaa'' ''0xa1'',
        Redis_UpdateTopBid 101 ''0xaa'' ''0xa1'', WriteHeader 200,
        DB_SaveBuilderBlockSubmission None False, DB_UpsertBlockBuilderEntryAfterSubmission False]"
    by (simp add: handler_defs stage_defs relay100_refreshed_def relay100_demoted_def
        demotion_defs Let_def
        request101_def env_ok_def relay100_def trace101_def payload101_def submission101_def
        duty101_def ParseUint_def)
  show ?thesis
    using C3_demotion_effective_after_refresh
      [OF a b relay100_demoted_def rtranclp.rtrancl_refl relay100_refreshed_def
          rtranclp.rtrancl_refl d k, of "env_ok None"]
      a b d k h
    by (simp add: k5)
qed



text \<open>
  Claim C5. A submission that reaches the cache writes performs them in the order bid
  trace, execution payload, latest builder bid, top bid; the first write that returns an
  error is followed by the answer 500 with the error and by the deferred save only, so
  the writes before it stay, and nothing was written to the bid store before the first.
\<close>

theorem C5_cache_writes_in_order:
  assumes "beforeCacheWrites api env req = Continue evs (payload, optimisticSubmission)"
  shows "let m = message payload;
             w1 = Redis_SaveBidTrace m;
             w2 = Redis_SaveExecutionPayload (Slot m) (ProposerPubkey m) (BlockHash m);
             w3 = Redis_SaveLatestBuilderBid (Slot m) (BuilderPubkey m) (ParentHash m)
                    (ProposerPubkey m);
             w4 = Redis_UpdateTopBid (Slot m) (ParentHash m) (ProposerPubkey m);
             deferred = deferredSave env None optimisticSubmission;
             handled = handleSubmitNewBlock api env req
         in filter is_bid_store_write evs = []
          \<and> filter is_bid_store_write deferred = []
          \<and> (\<forall>e. saveBidTrace_error env = Some e \<longrightarrow>
                 handled = evs @ [w1, RespondError 500 e] @ deferred)
          \<and> (\<forall>e. saveBidTrace_error env = None \<and> saveExecutionPayload_error env = Some e \<longrightarrow>
                 handled = evs @ [w1, w2, RespondError 500 e] @ deferred)
          \<and> (\<forall>e. saveBidTrace_error env = None \<and> saveExecutionPayload_error env = None
                 \<and> saveLatestBuilderBid_error env = Some e \<longrightarrow>
                 handled = evs @ [w1, w2, w3, RespondError 500 e] @ deferred)
          \<and> (\<forall>e. saveBidTrace_error env = None \<and> saveExecutionPayload_error env = None
                 \<and> saveLatestBuilderBid_error env = None \<and> updateTopBid_error env = Some e \<longrightarrow>
                 handled = evs @ [w1, w2, w3, w4, RespondError 500 e] @ deferred)
          \<and> (saveBidTrace_error env = None \<and> saveExecutionPayload_error env = None
                 \<and> saveLatestBuilderBid_error env = None \<and> updateTopBid_error env = None \<longrightarrow>
                 handled = evs @ [w1, w2, w3, w4, WriteHeader 200] @ deferred)"
proof -
  have d: "filter is_bid_store_write (deferredSave env None optimisticSubmission) = []"
    using deferredSave_events by (auto simp: filter_empty_conv)
  show ?thesis
    using beforeCacheWrites_Continue [OF assms] d
    by (simp add: handle_from_cacheWrites [OF assms] cacheWrites_def Let_def)
qed

theorem C5_witness:
  "beforeCacheWrites relay100 (env_ok None\<lparr>saveExecutionPayload_error := Some ''redis down''\<rparr>)
     (request101 5)
     = Continue [Go_processOptimisticBlock (submission101 5) 30000000] (submission101 5, True)
   \<and> handleSubmitNewBlock relay100
       (env_ok None\<lparr>saveExecutionPayload_error := Some ''redis down''\<rparr>) (request101 5) =
       [Go_processOptimisticBlock (submission101 5) 30000000,
        Redis_SaveBidTrace (trace101 5), Redis_SaveExecutionPayload 101 ''0xa1'' ''0xbb'',
        RespondError 500 ''redis down'',
        DB_SaveBuilderBlockSubmission None True, DB_UpsertBlockBuilderEntryAfterSubmission False]
   \<and> beforeCacheWrites relay100 (env_ok None) (request101 5)
     = Continue [Go_processOptimisticBlock (submission101 5) 30000000] (submission101 5, True)
   \<and> handleSubmitNewBlock relay100 (env_ok None) (request101 5) =
       [Go_processOptimisticBlock (submission101 5) 30000000,
        Redis_SaveBidTrace (trace101 5), Redis_SaveExecutionPayload 101 ''0xa1'' ''0xbb'',
        Redis_SaveLatestBuilderBid 101 ''0xb1'' ''0xaa'' ''0xa1'',
        Redis_UpdateTopBid 101 ''0xaa'' ''0xa1'', WriteHeader 200,
        DB_SaveBuilderBlockSubmission None True, DB_UpsertBlockBuilderEntryAfterSubmission False]"
proof -
  have a: "beforeCacheWrites relay100
             (env_ok None\<lparr>saveExecutionPayload_error := Some ''redis down''\<rparr>) (request101 5)
           = Continue [Go_processOptimisticBlock (submission101 5) 30000000] (submission101 5, True)"
    by (simp add: handler_defs stage_defs example_defs ParseUint_def)
  have b: "beforeCacheWrites relay100 (env_ok None) (request101 5)
           = Continue [Go_processOptimisticBlock (submission101 5) 30000000] (submission101 5, True)"
    by (simp add: handler_defs stage_defs example_defs ParseUint_def)
  show ?thesis
    using C5_cache_writes_in_order [OF a] C5_cache_writes_in_order [OF b] a b
    by (simp add: Let_def deferredSave_def example_defs)
qed

text \<open>
  Claim C6, as stated: on well-formed parameters with a slot that is not too old, the
  answer is 204 when no bid is stored for the tuple. It fails when the lookup of the best
  bid returns an error: no bid is stored below, and the answer is 400 with the error.
\<close>

theorem C6_counterexample:
  "ParseUint (slotStr (header_request ''101'')) = Some 101
   \<and> length (proposerPubkeyHex (header_request ''101'')) = 98
   \<and> length (parentHashHex (header_request ''101'')) = 66
   \<and> headSlot relay100 \<le> 101
   \<and> redis_bestBid relay100
        (101, parentHashHex (header_request ''101''), proposerPubkeyHex (header_request ''101''))
       = None
   \<and> handleGetHeader relay100 errs0 (Some ''connection refused'') (header_request ''101'')
       = [RespondError 400 ''connection refused'']"
  by (simp add: handleGetHeader_def GetBestBid_def header_request_def relay100_def
      ParseUint_def digit_val_def)

text \<open>
  Claim C6, amended: on well-formed parameters, a slot below the head slot is rejected
  with 400 and the message that the slot is too old; otherwise, when the lookup of the
  best bid returns without error and no bid is stored for the tuple, or the stored bid
  has value zero, the answer is 204 with no body; a bid that is served has a value other
  than zero; and when the lookup returns an error (the forced 204 being off) the answer
  is 400 with that error.
\<close>

theorem C6_getHeader_when_lookup_succeeds:
  assumes "ParseUint (slotStr req) = Some sl"
    and "length (proposerPubkeyHex req) = 98"
    and "length (parentHashHex req) = 66"
  shows "(sl < headSlot api \<longrightarrow>
            handleGetHeader api errs getBestBid_error req = [RespondError 400 ''slot is too old''])
       \<and> (\<not> sl < headSlot api \<and> getBestBid_error = None
            \<and> (redis_bestBid api (sl, parentHashHex req, proposerPubkeyHex req) = None
                \<or> (\<exists>b d m. redis_bestBid api (sl, parentHashHex req, proposerPubkeyHex req) = Some b
                      \<and> Data b = Some d \<and> bid_Message d = Some m \<and> bid_Value m = 0)) \<longrightarrow>
            handleGetHeader api errs getBestBid_error req = [WriteHeader 204])
       \<and> (\<forall>b. RespondOK_GetHeader b \<in> set (handleGetHeader api errs getBestBid_error req) \<longrightarrow>
            (\<exists>d m. Data b = Some d \<and> bid_Message d = Some m \<and> bid_Value m \<noteq> 0))
       \<and> (\<forall>e. \<not> sl < headSlot api \<and> \<not> ffForceGetHeader204 api \<and> getBestBid_error = Some e \<longrightarrow>
            handleGetHeader api errs getBestBid_error req = [RespondError 400 e])"
  by (auto simp: handleGetHeader_wellformed [OF assms] split: option.splits if_splits)

theorem C6_witness:
  "ParseUint (slotStr (header_request ''101'')) = Some 101
   \<and> ParseUint (slotStr (header_request ''99'')) = Some 99
   \<and> length (proposerPubkeyHex (header_request ''101'')) = 98
   \<and> length (parentHashHex (header_request ''101'')) = 66
   \<and> handleGetHeader relay100 errs0 None (header_request ''99'')
       = [RespondError 400 ''slot is too old'']
   \<and> handleGetHeader relay100 errs0 None (header_request ''101'') = [WriteHeader 204]
   \<and> handleGetHeader
        (relay100\<lparr>redis_bestBid :=
           [(101, parentHashHex (header_request ''101''),
             proposerPubkeyHex (header_request ''101'')) \<mapsto> zero_bid]\<rparr>)
        errs0 None (header_request ''101'') = [WriteHeader 204]"
proof -
  have p1: "ParseUint (slotStr (header_request ''101'')) = Some 101"
    by (simp add: header_request_def ParseUint_def digit_val_def)
  have p2: "ParseUint (slotStr (header_request ''99'')) = Some 99"
    by (simp add: header_request_def ParseUint_def digit_val_def)
  have l1: "length (proposerPubkeyHex (header_request s)) = 98" for s
    by (simp add: header_request_def)
  have l2: "length (parentHashHex (header_request s)) = 66" for s
    by (simp add: header_request_def)
  have h: "headSlot relay100 = 100" "redis_bestBid relay100 = Map.empty"
    by (simp_all add: relay100_def)
  show ?thesis
    using C6_getHeader_when_lookup_succeeds [OF p2 l1 l2, of relay100 errs0 None]
      C6_getHeader_when_lookup_succeeds [OF p1 l1 l2, of relay100 errs0 None]
      C6_getHeader_when_lookup_succeeds [OF p1 l1 l2,
        of "relay100\<lparr>redis_bestBid :=
           [(101, parentHashHex (header_request ''101''),
             proposerPubkeyHex (header_request ''101'')) \<mapsto> zero_bid]\<rparr>" errs0 None]
      p1 p2 l1 l2
    by (simp add: h zero_bid_def)
qed




text \<open>
  Claim C8. A simulator error whose message is \<open>ErrBlockAlreadyKnown\<close> is a
  success: \<open>simulateBlock\<close> returns no error, the branch on collateral does not
  return from the handler, the handler does what it does when the simulator reports no
  error, and the goroutine of an optimistic submission leaves the relay as it is, so no
  builder is demoted.
\<close>

theorem C8_block_already_known_is_success:
  "simulateBlock (Some ErrBlockAlreadyKnown) = None
   \<and> collateralBranch api (env\<lparr>simulatorResult := Some ErrBlockAlreadyKnown\<rparr>) payload slotDuty =
       (if optimisticCondition api payload
        then Continue [Go_processOptimisticBlock payload (RegisteredGasLimit slotDuty)] True
        else Continue [Call_simulateBlock payload (RegisteredGasLimit slotDuty)] False)
   \<and> handleSubmitNewBlock api (env\<lparr>simulatorResult := Some ErrBlockAlreadyKnown\<rparr>) req =
       handleSubmitNewBlock api (env\<lparr>simulatorResult := None\<rparr>) req
   \<and> processOptimisticBlock api payload (Some ErrBlockAlreadyKnown) statusError demotionError = api"
proof -
  have "handleSubmitNewBlock api (env\<lparr>simulatorResult := Some ErrBlockAlreadyKnown\<rparr>) req =
          handleSubmitNewBlock api (env\<lparr>simulatorResult := None\<rparr>) req"
    by (simp only: handler_defs stage_env_simulatorResult collateralBranch_already_known
        collateralBranch_sim_ok)
  moreover have "processOptimisticBlock api payload (Some ErrBlockAlreadyKnown) statusError
                   demotionError = api"
    by (simp add: processOptimisticBlock_def simulateBlock_already_known)
  ultimately show ?thesis
    by (simp only: simulateBlock_already_known collateralBranch_already_known simp_thms)
qed

text \<open>
  Claim C9. When the read of the delivered-slot marker returns a transport error, or a
  value that does not parse as an unsigned integer, the slot gate rejects nothing: the
  handler goes on with the stages after it, whatever the slot of the submission.
\<close>

theorem C9_slot_gate_fails_open:
  assumes "decodeSubmission req = Continue evs payload"
    and "GetStats api (getStats_error env) RedisStatsFieldSlotLastPayloadDelivered = (markerText, readError)"
    and "(\<exists>e. readError = Some (RedisError e)) \<or> ParseUint markerText = None"
  shows "slotGate api env payload = Continue [] ()
       \<and> handleSubmitNewBlock api env req = evs @ events_of (fromBuilderLookup api env payload)"
proof -
  have "slotGate api env payload = Continue [] ()"
    using assms(2,3) by (auto simp: slotGate_def split: option.splits)
  then show ?thesis
    by (simp add: handle_from_slotGate [OF assms(1)] bind_flow_Continue_Nil del: bind_flow.simps)
qed

theorem C9_witness:
  "decodeSubmission (request101 5) = Continue [] (submission101 5)
   \<and> GetStats (relay100\<lparr>redis_stats := [RedisStatsFieldSlotLastPayloadDelivered \<mapsto> ''101'']\<rparr>)
        (getStats_error (env_ok None\<lparr>getStats_error := Some ''i/o timeout''\<rparr>))
        RedisStatsFieldSlotLastPayloadDelivered = ([], Some (RedisError ''i/o timeout''))
   \<and> ParseUint ''101'' = Some 101
   \<and> Slot (message (submission101 5)) \<le> 101
   \<and> handleSubmitNewBlock
        (relay100\<lparr>redis_stats := [RedisStatsFieldSlotLastPayloadDelivered \<mapsto> ''101'']\<rparr>)
        (env_ok None\<lparr>getStats_error := Some ''i/o timeout''\<rparr>) (request101 5) =
       Go_processOptimisticBlock (submission101 5) 30000000
         # cacheWrites (env_ok None) (submission101 5) True
   \<and> GetStats (relay100\<lparr>redis_stats := [RedisStatsFieldSlotLastPayloadDelivered \<mapsto> ''1o1'']\<rparr>)
        (getStats_error (env_ok None)) RedisStatsFieldSlotLastPayloadDelivered = (''1o1'', None)
   \<and> ParseUint ''1o1'' = None
   \<and> handleSubmitNewBlock
        (relay100\<lparr>redis_stats := [RedisStatsFieldSlotLastPayloadDelivered \<mapsto> ''1o1'']\<rparr>)
        (env_ok None) (request101 5) =
       Go_processOptimisticBlock (submission101 5) 30000000
         # cacheWrites (env_ok None) (submission101 5) True"
proof -
  have d: "decodeSubmission (request101 5) = Continue [] (submission101 5)"
    by (simp add: decodeSubmission_def example_defs)
  have g1: "GetStats (relay100\<lparr>redis_stats := [RedisStatsFieldSlotLastPayloadDelivered \<mapsto> ''101'']\<rparr>)
        (getStats_error (env_ok None\<lparr>getStats_error := Some ''i/o timeout''\<rparr>))
        RedisStatsFieldSlotLastPayloadDelivered = ([], Some (RedisError ''i/o timeout''))"
    by (simp add: GetStats_def)
  have g2: "GetStats (relay100\<lparr>redis_stats := [RedisStatsFieldSlotLastPayloadDelivered \<mapsto> ''1o1'']\<rparr>)
        (getStats_error (env_ok None)) RedisStatsFieldSlotLastPayloadDelivered = (''1o1'', None)"
    by (simp add: GetStats_def env_ok_def)
  have p1: "ParseUint ''101'' = Some 101"
    by (simp add: ParseUint_def digit_val_def)
  have p2: "ParseUint ''1o1'' = None"
    by (simp add: ParseUint_def digit_val_def)
  have s: "Slot (message (submission101 5)) \<le> 101"
    by (simp add: example_defs)
  have f1: "events_of (fromBuilderLookup
              (relay100\<lparr>redis_stats := [RedisStatsFieldSlotLastPayloadDelivered \<mapsto> ''101'']\<rparr>)
              (env_ok None\<lparr>getStats_error := Some ''i/o timeout''\<rparr>) (submission101 5)) =
            Go_processOptimisticBlock (submission101 5) 30000000
              # cacheWrites (env_ok None) (submission101 5) True"
    by (simp add: fromBuilderLookup_def stage_defs example_defs)
  have f2: "events_of (fromBuilderLookup
              (relay100\<lparr>redis_stats := [RedisStatsFieldSlotLastPayloadDelivered \<mapsto> ''1o1'']\<rparr>)
              (env_ok None) (submission101 5)) =
            Go_processOptimisticBlock (submission101 5) 30000000
              # cacheWrites (env_ok None) (submission101 5) True"
    by (simp add: fromBuilderLookup_def stage_defs example_defs)
  show ?thesis
    using C9_slot_gate_fails_open [OF d g1] C9_slot_gate_fails_open [OF d g2] d g1 g2 p1 p2 s f1 f2
    by simp
qed

text \<open>
  Claim C10. An element whose signature verification returns false without an error is
  answered with 400, and \<open>processingStoppedByError\<close> stays unset: the elements
  after it are processed as from an unset flag, and when the array was traversed without
  error the write of status 200 follows.
\<close>

theorem C10_failed_signature_does_not_stop:
  assumes "verifyRegistration reg = (False, None)"
    and "VerifySignature_registration \<in> set (fst (processRegistration api start_ns reg))"
    and "\<not> stoppedAfter api start_ns False xs"
  shows "snd (processRegistration api start_ns reg) = False
       \<and> last (fst (processRegistration api start_ns reg)) =
           RespondError 400 (''failed to verify validator signature for '' @ message_Pubkey reg)
       \<and> \<not> stoppedAfter api start_ns False (xs @ [reg])
       \<and> registerEach api start_ns False (xs @ reg # ys) =
           registerEach api start_ns False xs
             @ fst (processRegistration api start_ns reg)
             @ registerEach api start_ns False ys
       \<and> (ContentLength req \<noteq> 0 \<and> readAll_error req = None
            \<and> registrations req = xs @ reg # ys \<and> \<not> arrayEach_error req \<longrightarrow>
          handleRegisterValidator api start_ns req =
            registerEach api start_ns False xs
              @ fst (processRegistration api start_ns reg)
              @ registerEach api start_ns False ys
              @ [WriteHeader 200])"
proof -
  have s: "snd (processRegistration api start_ns reg) = False"
    using assms(1,2)
    by (auto simp: processRegistration_def Let_def
        split: sum.splits prod.splits if_splits option.splits)
  have l: "last (fst (processRegistration api start_ns reg)) =
           RespondError 400 (''failed to verify validator signature for '' @ message_Pubkey reg)"
    using assms(1,2)
    by (auto simp: processRegistration_def Let_def
        split: sum.splits prod.splits if_splits option.splits)
  have st: "stoppedAfter api start_ns stopped (xs @ [reg]) =
              (if stoppedAfter api start_ns stopped xs then True
               else snd (processRegistration api start_ns reg))" for stopped xs
    by (induction xs arbitrary: stopped) auto
  have r: "registerEach api start_ns False (xs @ reg # ys) =
           registerEach api start_ns False xs
             @ fst (processRegistration api start_ns reg)
             @ registerEach api start_ns False ys"
    using assms(3) s
    by (cases "processRegistration api start_ns reg") (simp add: registerEach_append)
  from s l st assms(3) r show ?thesis
    by (simp add: handleRegisterValidator_def)
qed

theorem C10_witness:
  "verifyRegistration (registration_ok 200\<lparr>verifyRegistration := (False, None)\<rparr>) = (False, None)
   \<and> VerifySignature_registration \<in> set (fst (processRegistration relay100 start1000
         (registration_ok 200\<lparr>verifyRegistration := (False, None)\<rparr>)))
   \<and> \<not> stoppedAfter relay100 start1000 False []
   \<and> handleRegisterValidator relay100 start1000
        (register_request_of
           [registration_ok 200\<lparr>verifyRegistration := (False, None)\<rparr>, registration_ok 300]) =
       [Chan_activeValidator ''0xa1'', Json_Unmarshal_registration, VerifySignature_registration,
        RespondError 400 ''failed to verify validator signature for 0xa1'',
        Chan_activeValidator ''0xa1'', Json_Unmarshal_registration, VerifySignature_registration,
        Chan_validatorReg ''0xa1'', WriteHeader 200]"
proof -
  let ?bad = "registration_ok 200\<lparr>verifyRegistration := (False, None)\<rparr>"
  have a: "verifyRegistration ?bad = (False, None)"
    by simp
  have p: "processRegistration relay100 start1000 ?bad =
       ([Chan_activeValidator ''0xa1'', Json_Unmarshal_registration, VerifySignature_registration,
         RespondError 400 ''failed to verify validator signature for 0xa1''], False)"
    by (simp add: registration_defs relay100_def Let_def)
  have b: "VerifySignature_registration \<in> set (fst (processRegistration relay100 start1000 ?bad))"
    by (simp add: p)
  have c: "\<not> stoppedAfter relay100 start1000 False []"
    by simp
  have g: "processRegistration relay100 start1000 (registration_ok 300) =
       ([Chan_activeValidator ''0xa1'', Json_Unmarshal_registration, VerifySignature_registration,
         Chan_validatorReg ''0xa1''], False)"
    by (simp add: registration_defs relay100_def Let_def)
  show ?thesis
    using C10_failed_signature_does_not_stop [OF a b c, of "[registration_ok 300]"
        "register_request_of [?bad, registration_ok 300]"] a b
    by (simp add: p g register_request_of_def)
qed


end
